theory Spec2Isabelle
  imports Complex_Main "HOL-Library.AList"
begin

section \<open>JavaScript values\<close>

text \<open>
  A JavaScript number is NaN, one of the two infinities or a finite value; every finite
  double is a rational, and the order of finite doubles is the order of the rationals.
\<close>

datatype jsnum = NaN | NegInf | Fin rat | PosInf

datatype jsval =
    Undefined
  | Null
  | Bool bool
  | Num jsnum
  | Str string
  | Arr "jsval list"
  | Obj "(string \<times> jsval) list"

datatype js_error = Error string | TypeError string

text \<open>Truthiness, as tested by \<^verbatim>\<open>!value\<close> and \<^verbatim>\<open>if (x)\<close>.\<close>

fun truthy :: "jsval \<Rightarrow> bool" where
  "truthy Undefined = False"
| "truthy Null = False"
| "truthy (Bool b) = b"
| "truthy (Num n) = (n \<noteq> NaN \<and> n \<noteq> Fin 0)"
| "truthy (Str s) = (s \<noteq> [])"
| "truthy (Arr xs) = True"
| "truthy (Obj fs) = True"

text \<open>\<^verbatim>\<open>Number.isNaN\<close>: true for the number NaN only, without coercion.\<close>

definition isNaN :: "jsval \<Rightarrow> bool" where
  "isNaN x = (x = Num NaN)"

section \<open>The index comparators (part_001, lines 17 to 31)\<close>

text \<open>
  \<^verbatim>\<open>simpleCompare\<close> is imported from the chunked-tree library and is a parameter \<open>sc\<close>
  of the comparators. A composite key is the two-element array \<^verbatim>\<open>[key, ref]\<close>.
\<close>

type_synonym comparator = "jsval \<Rightarrow> jsval \<Rightarrow> int"

definition composite :: "jsval \<Rightarrow> jsval \<Rightarrow> jsval" where
  "composite k r = Arr [k, r]"

text \<open>Reading an array element: an index past the end gives \<open>Undefined\<close>.\<close>

definition at_or_undefined :: "jsval list \<Rightarrow> nat \<Rightarrow> jsval" where
  "at_or_undefined xs i = (if i < length xs then xs ! i else Undefined)"

text \<open>
  The array pattern \<^verbatim>\<open>[x, y] = a\<close>: arrays and strings are iterable, a string yields
  its characters, anything else raises a TypeError.
\<close>

fun destructure2 :: "jsval \<Rightarrow> js_error + (jsval \<times> jsval)" where
  "destructure2 (Arr xs) = Inr (at_or_undefined xs 0, at_or_undefined xs 1)"
| "destructure2 (Str s) =
     Inr (at_or_undefined (map (\<lambda>c. Str [c]) s) 0, at_or_undefined (map (\<lambda>c. Str [c]) s) 1)"
| "destructure2 _ = Inl (TypeError ''not iterable'')"

definition refCompare :: "comparator \<Rightarrow> jsval \<Rightarrow> jsval \<Rightarrow> js_error + int" where
  "refCompare sc aRef bRef =
     (if isNaN aRef then Inr (- 1)
      else if isNaN bRef then Inl (Error ''ref may not be Infinity or NaN'')
      else if aRef = Num PosInf then Inr 1
      else Inr (sc aRef bRef))"

definition compare :: "comparator \<Rightarrow> jsval \<Rightarrow> jsval \<Rightarrow> js_error + int" where
  "compare sc a b =
     (case destructure2 a of
        Inl e \<Rightarrow> Inl e
      | Inr (aKey, aRef) \<Rightarrow>
          (case destructure2 b of
             Inl e \<Rightarrow> Inl e
           | Inr (bKey, bRef) \<Rightarrow>
               let comp = sc aKey bKey
               in if comp \<noteq> 0 then Inr comp else refCompare sc aRef bRef))"

text \<open>
  The library's comparison on two numbers and on two strings, for evaluating the
  comparators on concrete keys: equal values give 0, a greater left value 1, everything
  else -1 (a comparison with NaN is false in JavaScript). Between values of different
  types JavaScript compares after a coercion, which is not modelled: the concrete inputs
  below compare numbers with numbers and strings with strings only.
\<close>

fun num_gt :: "jsnum \<Rightarrow> jsnum \<Rightarrow> bool" where
  "num_gt NaN _ = False"
| "num_gt _ NaN = False"
| "num_gt PosInf b = (b \<noteq> PosInf)"
| "num_gt (Fin x) NegInf = True"
| "num_gt (Fin x) (Fin y) = (y < x)"
| "num_gt (Fin x) PosInf = False"
| "num_gt NegInf _ = False"

fun str_gt :: "string \<Rightarrow> string \<Rightarrow> bool" where
  "str_gt [] _ = False"
| "str_gt (x # xs) [] = True"
| "str_gt (x # xs) (y # ys) =
     (of_char y < (of_char x :: nat) \<or> (x = y \<and> str_gt xs ys))"

fun js_gt :: "jsval \<Rightarrow> jsval \<Rightarrow> bool" where
  "js_gt (Num a) (Num b) = num_gt a b"
| "js_gt (Str a) (Str b) = str_gt a b"
| "js_gt _ _ = False"

definition js_strict_eq :: "jsval \<Rightarrow> jsval \<Rightarrow> bool" where
  "js_strict_eq a b =
     (case (a, b) of
        (Num x, Num y) \<Rightarrow> x \<noteq> NaN \<and> x = y
      | (Str x, Str y) \<Rightarrow> x = y
      | (Bool x, Bool y) \<Rightarrow> x = y
      | (Null, Null) \<Rightarrow> True
      | (Undefined, Undefined) \<Rightarrow> True
      | _ \<Rightarrow> False)"

definition simpleCompare :: comparator where
  "simpleCompare a b = (if js_strict_eq a b then 0 else if js_gt a b then 1 else - 1)"

section \<open>Index entries from changes (part_001, lines 36 to 78)\<close>

text \<open>
  A change row \<^verbatim>\<open>{key, value, del}\<close>, with the field \<open>val\<close> for its value: a row
  without a value has \<open>Undefined\<close> there, a row without the flag has \<open>del = False\<close>.
\<close>

record change =
  key :: string
  val :: jsval
  del :: bool

text \<open>
  An entry of one of the two index structures: \<^verbatim>\<open>{key, value}\<close>, or the removal
  \<^verbatim>\<open>{key, del: true}\<close>, whose value is \<open>Undefined\<close>.
\<close>

record entry =
  ekey :: jsval
  evalue :: jsval
  edel :: bool

text \<open>
  A live map function: its source text and what it emits for a document, the calls of
  \<^verbatim>\<open>emit(k, v)\<close> in order (an argument left out is \<open>Undefined\<close>).
\<close>

record mapfn =
  source :: string
  run :: "jsval \<Rightarrow> (jsval \<times> jsval) list"

text \<open>
  An object is the association list of its own properties in the order in which
  JavaScript enumerates them: the names that are array indices first, in ascending
  numeric order, then the other names in the order of their creation. An array index is
  a decimal numeral without a leading zero whose value is at most 4294967294.
\<close>

definition is_digit :: "char \<Rightarrow> bool" where
  "is_digit c = (48 \<le> (of_char c :: nat) \<and> (of_char c :: nat) \<le> 57)"

definition nat_of_digits :: "string \<Rightarrow> nat" where
  "nat_of_digits s = foldl (\<lambda>n c. 10 * n + (of_char c - 48)) 0 s"

fun canonical_numeral :: "string \<Rightarrow> bool" where
  "canonical_numeral [] = False"
| "canonical_numeral [c] = is_digit c"
| "canonical_numeral (c # cs) = (is_digit c \<and> c \<noteq> CHR ''0'' \<and> list_all is_digit cs)"

definition is_array_index :: "string \<Rightarrow> bool" where
  "is_array_index s = (canonical_numeral s \<and> nat_of_digits s \<le> 4294967294)"

text \<open>
  Creating a property that the object does not have: an array index goes before the
  first name that is not a smaller array index, any other name goes to the end.
\<close>

fun obj_create :: "string \<Rightarrow> jsval \<Rightarrow> (string \<times> jsval) list \<Rightarrow> (string \<times> jsval) list" where
  "obj_create k v [] = [(k, v)]"
| "obj_create k v ((k', v') # fs) =
     (if is_array_index k
      then (if is_array_index k' \<and> nat_of_digits k' < nat_of_digits k
            then (k', v') # obj_create k v fs
            else (k, v) # (k', v') # fs)
      else (k', v') # obj_create k v fs)"

text \<open>Replacing the value of a property keeps its position.\<close>

fun obj_replace :: "string \<Rightarrow> jsval \<Rightarrow> (string \<times> jsval) list \<Rightarrow> (string \<times> jsval) list" where
  "obj_replace k v [] = []"
| "obj_replace k v ((k', v') # fs) =
     (if k' = k then (k, v) # fs else (k', v') # obj_replace k v fs)"

text \<open>Setting a property: it is replaced when the object has it and created otherwise.\<close>

definition obj_set :: "string \<Rightarrow> jsval \<Rightarrow> (string \<times> jsval) list \<Rightarrow> (string \<times> jsval) list" where
  "obj_set k v fs = (if k \<in> fst ` set fs then obj_replace k v fs else obj_create k v fs)"

text \<open>Array indices as property names are decimal numerals.\<close>

definition digit_char :: "nat \<Rightarrow> char" where
  "digit_char d = char_of (48 + d)"

function show_nat :: "nat \<Rightarrow> string" where
  "show_nat n = (if n < 10 then [digit_char n] else show_nat (n div 10) @ [digit_char (n mod 10)])"
  by pat_completeness auto
termination
  by (relation "measure id") auto

declare show_nat.simps [simp del]

text \<open>
  The own properties a spread \<^verbatim>\<open>...value\<close> copies: the fields of an object, the indexed
  elements of an array, the indexed characters of a string; null, undefined, numbers and
  booleans spread to nothing.
\<close>

fun spread :: "jsval \<Rightarrow> (string \<times> jsval) list" where
  "spread (Obj fs) = fs"
| "spread (Arr xs) = zip (map show_nat [0..<length xs]) xs"
| "spread (Str s) = zip (map show_nat [0..<length s]) (map (\<lambda>c. Str [c]) s)"
| "spread _ = []"

text \<open>
  \<^verbatim>\<open>({ _id: key, ...value })\<close>: the property \<open>_id\<close> is created first and the
  properties of the value are set after it, so array indices among them come before
  \<open>_id\<close> in the document and the other names after it.
\<close>

definition makeDoc :: "string \<Rightarrow> jsval \<Rightarrow> jsval" where
  "makeDoc k v = Obj (foldl (\<lambda>fs (f, x). obj_set f x fs) [(''_id'', Str k)] (spread v))"

text \<open>
  The state of the \<^verbatim>\<open>forEach\<close> loop: the entries pushed to \<^verbatim>\<open>indexEntries\<close> so far and, to observe the
  calls, the documents the map function has been invoked on.
\<close>

record emit_state =
  pushed :: "entry list"
  invoked :: "jsval list"

definition emit_cb ::
  "(jsval \<Rightarrow> jsval) \<Rightarrow> string \<Rightarrow> entry list \<Rightarrow> jsval \<times> jsval \<Rightarrow> entry list" where
  "emit_cb encode k es kv =
     (case kv of (k', v) \<Rightarrow>
        if v = Undefined \<or> k' = Undefined then es
        else es @ [\<lparr>ekey = composite (encode k') (Str k), evalue = v, edel = False\<rparr>])"

definition change_step :: "(jsval \<Rightarrow> jsval) \<Rightarrow> mapfn \<Rightarrow> emit_state \<Rightarrow> change \<Rightarrow> emit_state" where
  "change_step encode mapFn st c =
     (if del c \<or> \<not> truthy (val c) then st
      else let doc = makeDoc (key c) (val c)
           in \<lparr>pushed = foldl (emit_cb encode (key c)) (pushed st) (run mapFn doc),
               invoked = invoked st @ [doc]\<rparr>)"

definition indexEntriesForChanges_run ::
  "(jsval \<Rightarrow> jsval) \<Rightarrow> change list \<Rightarrow> mapfn \<Rightarrow> emit_state" where
  "indexEntriesForChanges_run encode changes mapFn =
     foldl (change_step encode mapFn) \<lparr>pushed = [], invoked = []\<rparr> changes"

definition indexEntriesForChanges ::
  "(jsval \<Rightarrow> jsval) \<Rightarrow> change list \<Rightarrow> mapfn \<Rightarrow> entry list" where
  "indexEntriesForChanges encode changes mapFn =
     pushed (indexEntriesForChanges_run encode changes mapFn)"

section \<open>The chunked-tree library and the index block store\<close>

text \<open>
  The index engine consumes the chunked-tree library (\<^verbatim>\<open>create\<close>, \<^verbatim>\<open>load\<close>,
  \<^verbatim>\<open>bulk\<close>, \<^verbatim>\<open>getMany\<close>, \<^verbatim>\<open>range\<close>, \<^verbatim>\<open>get\<close>, \<^verbatim>\<open>getAllEntries\<close>), the
  order-preserving key encoding and the \<^verbatim>\<open>put\<close> of the index block store through
  their interfaces. They are parameters of the model: \<open>'t\<close> is the type of tree nodes,
  \<open>'ib\<close> the type of the index block store. A content identifier is a JavaScript value,
  \<open>Null\<close> or \<open>Undefined\<close> when there is none.
\<close>

datatype index_opts = IdIndexOpts | DbIndexOpts

type_synonym block = "jsval \<times> jsval"

record qrow =
  rid :: jsval
  rkey :: jsval
  row :: jsval

record ('t, 'ib) tree_ops =
  t_create :: "'ib \<Rightarrow> index_opts \<Rightarrow> entry list \<Rightarrow> 't list"
  t_load :: "'ib \<Rightarrow> index_opts \<Rightarrow> jsval \<Rightarrow> 't"
  t_bulk :: "'ib \<Rightarrow> 't \<Rightarrow> entry list \<Rightarrow> 't \<times> block list"
  t_block :: "'t \<Rightarrow> block"
  t_getMany :: "'ib \<Rightarrow> 't \<Rightarrow> jsval list \<Rightarrow> jsval list"
  t_range :: "'ib \<Rightarrow> 't \<Rightarrow> jsval list \<Rightarrow> qrow list"
  t_get :: "'ib \<Rightarrow> 't \<Rightarrow> jsval \<Rightarrow> qrow list"
  t_getAllEntries :: "'ib \<Rightarrow> 't \<Rightarrow> entry list"
  putBlock :: "'ib \<Rightarrow> block \<Rightarrow> 'ib"
  encode :: "jsval \<Rightarrow> jsval"
  decode :: "jsval \<Rightarrow> jsval"

text \<open>One of the two index structures of an index: \<^verbatim>\<open>{ root, cid }\<close>.\<close>

record 't index_ref =
  root :: "'t option"
  cid :: jsval

section \<open>Loading and querying an index (part_001, lines 296 to 324)\<close>

definition loadIndex ::
  "('t, 'ib) tree_ops \<Rightarrow> 'ib \<Rightarrow> 't index_ref \<Rightarrow> index_opts \<Rightarrow> 't index_ref" where
  "loadIndex ops blocks index indexOpts =
     (case root index of
        None \<Rightarrow>
          if \<not> truthy (cid index) then index
          else index\<lparr>root := Some (t_load ops blocks indexOpts (cid index))\<rparr>
      | Some r \<Rightarrow> index)"

text \<open>
  \<^verbatim>\<open>results.result.slice(0, limit)\<close>: no limit keeps the list, a negative limit counts
  from the end.
\<close>

definition slice0 :: "'a list \<Rightarrow> int option \<Rightarrow> 'a list" where
  "slice0 xs limit =
     (case limit of
        None \<Rightarrow> xs
      | Some n \<Rightarrow> if n < 0 then take (nat (int (length xs) + n)) xs else take (nat n) xs)"

definition applyLimit :: "'a list \<Rightarrow> int option \<Rightarrow> 'a list" where
  "applyLimit results limit = slice0 results limit"

text \<open>
  A query \<^verbatim>\<open>{range, key, limit}\<close>; a key that is left out is \<open>Undefined\<close>.
\<close>

record query =
  qrange :: "jsval list option"
  qkey :: jsval
  qlimit :: "int option"

text \<open>The callback of the scan: \<^verbatim>\<open>({ key: [k, id], value }) => ({ key: k, id, row: value })\<close>.\<close>

fun scan_rows :: "entry list \<Rightarrow> js_error + qrow list" where
  "scan_rows [] = Inr []"
| "scan_rows (e # es) =
     (case destructure2 (ekey e) of
        Inl err \<Rightarrow> Inl err
      | Inr (k, i) \<Rightarrow>
          (case scan_rows es of
             Inl err \<Rightarrow> Inl err
           | Inr rs \<Rightarrow> Inr (\<lparr>rid = i, rkey = k, row = evalue e\<rparr> # rs)))"

text \<open>
  \<^verbatim>\<open>doIndexQuery\<close> returns the result rows; the loaded root stays in the index
  structure, which is returned with them.
\<close>

definition doIndexQuery ::
  "('t, 'ib) tree_ops \<Rightarrow> 'ib \<Rightarrow> 't index_ref \<Rightarrow> query \<Rightarrow> (js_error + qrow list) \<times> 't index_ref" where
  "doIndexQuery ops blocks indexByKey q =
     (let ix = loadIndex ops blocks indexByKey DbIndexOpts
      in case root ix of
           None \<Rightarrow> (Inr [], ix)
         | Some r \<Rightarrow>
             (case qrange q of
                Some rng \<Rightarrow>
                  (Inr (applyLimit (t_range ops blocks r (map (encode ops) rng)) (qlimit q)), ix)
              | None \<Rightarrow>
                  if truthy (qkey q) then (Inr (t_get ops blocks r (encode ops (qkey q))), ix)
                  else (case scan_rows (t_getAllEntries ops blocks r) of
                          Inl err \<Rightarrow> (Inl err, ix)
                        | Inr rs \<Rightarrow> (Inr (applyLimit rs (qlimit q)), ix))))"

section \<open>The document store (fireproof.js)\<close>

text \<open>
  The store consumes the Merkle-clock engine of \<^verbatim>\<open>prolly.js\<close> through four
  functions, which are parameters of the model; \<open>'b\<close> is the type of the block store.
  \<open>e_put\<close> stands for the engine's \<^verbatim>\<open>put\<close> run by the block committer
  (\<^verbatim>\<open>doTransaction\<close>): it gives the head of the result, or \<open>None\<close> when the engine
  returns no result, and the block store afterwards. A clock is a list of content
  identifiers of events, here numbers.
\<close>

type_synonym clock = "nat list"

datatype event_type = PutEvent | DelEvent

record dbevent =
  evkey :: string
  evtype :: event_type
  evvalue :: jsval

record 'b engine =
  e_put :: "'b \<Rightarrow> clock \<Rightarrow> change \<Rightarrow> clock option \<times> 'b"
  e_get :: "'b \<Rightarrow> clock \<Rightarrow> string \<Rightarrow> jsval"
  e_getAll :: "'b \<Rightarrow> clock \<Rightarrow> (string \<times> jsval) list"
  e_eventsSince :: "'b \<Rightarrow> clock \<Rightarrow> clock \<Rightarrow> dbevent list"

text \<open>
  The state of a store: its block store, its clock, the validation hook of its
  configuration (\<open>Some msg\<close> when the hook throws), the authorisation context, the
  registered listeners in registration order, and the notifications delivered so far.
\<close>

record 'b store =
  blocks :: 'b
  clock :: clock
  validateChange :: "(jsval \<Rightarrow> jsval \<Rightarrow> jsval \<Rightarrow> string option) option"
  authCtx :: jsval
  listeners :: "nat list"
  delivered :: "(nat \<times> change list) list"

record changes =
  rows :: "change list"
  rclock :: clock

text \<open>
  \<^verbatim>\<open>docsMap.set(key, row)\<close> on a JavaScript \<^verbatim>\<open>Map\<close>: a key already there keeps its
  position and gets the new row, a new key goes to the end. This is \<^const>\<open>AList.update\<close>.
\<close>

definition docsMap_step :: "(string \<times> change) list \<Rightarrow> dbevent \<Rightarrow> (string \<times> change) list" where
  "docsMap_step docsMap e =
     (if evtype e = DelEvent
      then AList.update (evkey e) \<lparr>key = evkey e, val = Undefined, del = True\<rparr> docsMap
      else AList.update (evkey e) \<lparr>key = evkey e, val = evvalue e, del = False\<rparr> docsMap)"

definition changesSince :: "'b engine \<Rightarrow> 'b store \<Rightarrow> clock option \<Rightarrow> changes" where
  "changesSince eng s event =
     (case event of
        Some ev \<Rightarrow>
          let resp = e_eventsSince eng (blocks s) (clock s) ev;
              docsMap = foldl docsMap_step [] resp
          in \<lparr>rows = map snd docsMap, rclock = clock s\<rparr>
      | None \<Rightarrow>
          \<lparr>rows = map (\<lambda>(k, v). \<lparr>key = k, val = v, del = False\<rparr>)
                     (e_getAll eng (blocks s) (clock s)),
           rclock = clock s\<rparr>)"

definition notifyListeners :: "'b store \<Rightarrow> change list \<Rightarrow> 'b store" where
  "notifyListeners s chs = s\<lparr>delivered := delivered s @ map (\<lambda>l. (l, chs)) (listeners s)\<rparr>"

text \<open>
  \<^verbatim>\<open>got._id = key\<close>: on an object it sets the field; on \<^verbatim>\<open>undefined\<close> and, in a
  module, on a primitive it raises a TypeError; an array keeps its elements.
\<close>

fun set_id :: "jsval \<Rightarrow> string \<Rightarrow> js_error + jsval" where
  "set_id (Obj fs) k = Inr (Obj (obj_set ''_id'' (Str k) fs))"
| "set_id (Arr xs) k = Inr (Arr xs)"
| "set_id _ k = Inl (TypeError ''cannot set property _id'')"

definition get :: "'b engine \<Rightarrow> 'b store \<Rightarrow> string \<Rightarrow> js_error + jsval" where
  "get eng s k =
     (let got = e_get eng (blocks s) (clock s) k
      in if got = Null then Inl (Error ''Not found'') else set_id got k)"

definition runValidation :: "'b engine \<Rightarrow> 'b store \<Rightarrow> string \<Rightarrow> jsval \<Rightarrow> js_error + unit" where
  "runValidation eng s doc_id doc =
     (case validateChange s of
        None \<Rightarrow> Inr ()
      | Some hook \<Rightarrow>
          let oldDoc = (case get eng s doc_id of Inr d \<Rightarrow> d | Inl e \<Rightarrow> Obj [])
          in (case hook doc oldDoc (authCtx s) of
                Some msg \<Rightarrow> Inl (Error msg)
              | None \<Rightarrow> Inr ()))"

record put_result =
  pid :: string
  pclock :: clock

definition putToProllyTree ::
  "'b engine \<Rightarrow> 'b store \<Rightarrow> change \<Rightarrow> (js_error + put_result) \<times> 'b store" where
  "putToProllyTree eng s event =
     (case e_put eng (blocks s) (clock s) event of
        (None, b) \<Rightarrow> (Inl (Error ''failed to put at storage layer''), s\<lparr>blocks := b\<rparr>)
      | (Some head, b) \<Rightarrow>
          let s' = notifyListeners (s\<lparr>blocks := b, clock := head\<rparr>) [event]
          in (Inr \<lparr>pid = key event, pclock = clock s'\<rparr>, s'))"

text \<open>
  \<^verbatim>\<open>put({ _id, ...doc })\<close>: \<open>given_id\<close> is the identifier given, if any, \<open>doc\<close> the other
  fields, \<open>rnd\<close> the digits that \<^verbatim>\<open>Math.random().toString(36).slice(2)\<close> gives.
\<close>

definition new_id :: "string \<Rightarrow> string option \<Rightarrow> string" where
  "new_id rnd given_id =
     (case given_id of
        Some x \<Rightarrow> if x \<noteq> [] then x else CHR ''f'' # rnd
      | None \<Rightarrow> CHR ''f'' # rnd)"

definition put ::
  "'b engine \<Rightarrow> string \<Rightarrow> 'b store \<Rightarrow> string option \<Rightarrow> (string \<times> jsval) list
     \<Rightarrow> (js_error + put_result) \<times> 'b store" where
  "put eng rnd s given_id doc =
     (let i = new_id rnd given_id
      in case runValidation eng s i (makeDoc i (Obj doc)) of
           Inl e \<Rightarrow> (Inl e, s)
         | Inr u \<Rightarrow> putToProllyTree eng s \<lparr>key = i, val = Obj doc, del = False\<rparr>)"

text \<open>
  \<^verbatim>\<open>del(id)\<close>, here \<open>del_doc\<close> (\<open>del\<close> is the flag of a change row): the event it
  commits has the value null and no flag.
\<close>

definition del_doc :: "'b engine \<Rightarrow> 'b store \<Rightarrow> string \<Rightarrow> (js_error + put_result) \<times> 'b store" where
  "del_doc eng s i =
     (case runValidation eng s i (Obj [(''_id'', Str i), (''_deleted'', Bool True)]) of
        Inl e \<Rightarrow> (Inl e, s)
      | Inr u \<Rightarrow> putToProllyTree eng s \<lparr>key = i, val = Null, del = False\<rparr>)"

section \<open>The index (part_001, lines 90 to 294)\<close>

text \<open>
  The fields of a \<^verbatim>\<open>DbIndex\<close> that the operations below read and write. \<open>mapFn\<close> is
  \<open>None\<close> for an index made from source text alone; \<open>dbHead\<close> is \<open>None\<close> for
  \<^verbatim>\<open>null\<close>; \<open>updateIndexPromise\<close> holds the handle of the pending update, if any.
\<close>

record 't dbindex =
  mapFn :: "mapfn option"
  mapFnString :: string
  indexById :: "'t index_ref"
  indexByKey :: "'t index_ref"
  dbHead :: "clock option"
  updateIndexPromise :: "nat option"

text \<open>
  The database as the index sees it: the document store, the index block store, the
  registry \<^verbatim>\<open>indexes\<close> from source text to the registered index object, and the tags
  passed to \<^verbatim>\<open>notifyExternal\<close>. Index objects are shared and mutated in place, so
  they live in a heap of objects addressed by numbers.
\<close>

record ('b, 'ib) database =
  dstore :: "'b store"
  indexBlocks :: 'ib
  indexes :: "string \<rightharpoonup> nat"
  external :: "string list"

type_synonym 't heap = "nat \<rightharpoonup> 't dbindex"

subsection \<open>The registry\<close>

text \<open>
  \<^verbatim>\<open>registerWithDatabase(inIndex, database)\<close>, with \<open>i\<close> the address of
  \<^verbatim>\<open>inIndex\<close>. An address that holds no object leaves everything as it is.
\<close>

definition registerWithDatabase ::
  "nat \<Rightarrow> 't heap \<Rightarrow> ('b, 'ib) database \<Rightarrow> 't heap \<times> ('b, 'ib) database" where
  "registerWithDatabase i h db =
     (case h i of
        None \<Rightarrow> (h, db)
      | Some inIndex \<Rightarrow>
          (case indexes db (mapFnString inIndex) of
             None \<Rightarrow> (h, db\<lparr>indexes := (indexes db)(mapFnString inIndex \<mapsto> i)\<rparr>)
           | Some e \<Rightarrow>
               (case h e of
                  None \<Rightarrow> (h, db)
                | Some existingIndex \<Rightarrow>
                    if mapFn existingIndex \<noteq> None
                    then (h(e \<mapsto> existingIndex
                            \<lparr>dbHead := dbHead inIndex,
                             indexById := (indexById existingIndex)\<lparr>cid := cid (indexById inIndex)\<rparr>,
                             indexByKey := (indexByKey existingIndex)\<lparr>cid := cid (indexByKey inIndex)\<rparr>\<rparr>),
                          db)
                    else (h(i \<mapsto> inIndex
                            \<lparr>dbHead := dbHead existingIndex,
                             indexById := (indexById inIndex)\<lparr>cid := cid (indexById existingIndex)\<rparr>,
                             indexByKey := (indexByKey inIndex)\<lparr>cid := cid (indexByKey existingIndex)\<rparr>\<rparr>),
                          db\<lparr>indexes := (indexes db)(mapFnString inIndex \<mapsto> i)\<rparr>))))"

subsection \<open>Bulk updates of one index structure\<close>

definition put_blocks :: "('t, 'ib) tree_ops \<Rightarrow> 'ib \<Rightarrow> block list \<Rightarrow> 'ib" where
  "put_blocks ops blks bs = foldl (putBlock ops) blks bs"

definition bulk_root ::
  "('t, 'ib) tree_ops \<Rightarrow> 'ib \<Rightarrow> 't \<Rightarrow> entry list \<Rightarrow> 't index_ref \<times> 'ib" where
  "bulk_root ops blks r indexEntries =
     (case t_bulk ops blks r indexEntries of
        (root', newBlocks) \<Rightarrow>
          let returnRootBlock = t_block ops root';
              blks' = putBlock ops (put_blocks ops blks newBlocks) returnRootBlock
          in (\<lparr>root = Some root', cid = fst returnRootBlock\<rparr>, blks'))"

text \<open>
  \<^verbatim>\<open>bulkIndex\<close>. When \<^verbatim>\<open>create\<close> yields no node, \<^verbatim>\<open>returnRootBlock.cid\<close> reads a
  property of \<^verbatim>\<open>undefined\<close>, a TypeError.
\<close>

definition bulkIndex ::
  "('t, 'ib) tree_ops \<Rightarrow> 'ib \<Rightarrow> 't index_ref \<Rightarrow> entry list \<Rightarrow> index_opts
     \<Rightarrow> js_error + ('t index_ref \<times> 'ib)" where
  "bulkIndex ops blks inIndex indexEntries opts =
     (if indexEntries = [] then Inr (inIndex, blks)
      else case root inIndex of
             None \<Rightarrow>
               if \<not> truthy (cid inIndex)
               then (case t_create ops blks opts indexEntries of
                       [] \<Rightarrow> Inl (TypeError ''cannot read properties of undefined (reading cid)'')
                     | n # ns \<Rightarrow>
                         Inr (\<lparr>root = Some (last (n # ns)),
                               cid = fst (t_block ops (last (n # ns)))\<rparr>,
                              put_blocks ops blks (map (t_block ops) (n # ns))))
               else Inr (bulk_root ops blks (t_load ops blks DbIndexOpts (cid inIndex)) indexEntries)
           | Some r \<Rightarrow> Inr (bulk_root ops blks r indexEntries))"

subsection \<open>The incremental update\<close>

text \<open>\<^verbatim>\<open>key[1]\<close>: reading a property of \<^verbatim>\<open>null\<close> or \<^verbatim>\<open>undefined\<close> raises a TypeError.\<close>

fun index1 :: "jsval \<Rightarrow> js_error + jsval" where
  "index1 (Arr xs) = Inr (at_or_undefined xs 1)"
| "index1 (Str s) = Inr (at_or_undefined (map (\<lambda>c. Str [c]) s) 1)"
| "index1 (Obj fs) = Inr (case map_of fs ''1'' of None \<Rightarrow> Undefined | Some v \<Rightarrow> v)"
| "index1 Undefined = Inl (TypeError ''cannot read properties of undefined (reading 1)'')"
| "index1 Null = Inl (TypeError ''cannot read properties of null (reading 1)'')"
| "index1 _ = Inr Undefined"

text \<open>\<^verbatim>\<open>xs.map(f)\<close> where \<open>f\<close> may throw: the first failure ends the loop.\<close>

fun map_throw :: "('a \<Rightarrow> js_error + 'c) \<Rightarrow> 'a list \<Rightarrow> js_error + 'c list" where
  "map_throw f [] = Inr []"
| "map_throw f (x # xs) =
     (case f x of
        Inl e \<Rightarrow> Inl e
      | Inr y \<Rightarrow> (case map_throw f xs of Inl e \<Rightarrow> Inl e | Inr ys \<Rightarrow> Inr (y # ys)))"

definition missing_mapFn_message :: "string \<Rightarrow> string" where
  "missing_mapFn_message src =
     ''No live map function installed for index, cannot update. Make sure your index definition runs before any queries.''
     @ (if src \<noteq> [] then '' Your code should match the stored map function source:'' @ [CHR 0x0A] @ src
        else [])"

text \<open>
  The removals of an update that is not the first build: the composite keys the id-index
  holds for the changed documents, as removals of the key-index, and the matching removals
  of the id-index.
\<close>

definition old_entries ::
  "('t, 'ib) tree_ops \<Rightarrow> 'ib \<Rightarrow> 't dbindex \<Rightarrow> change list \<Rightarrow> js_error + (entry list \<times> entry list)" where
  "old_entries ops blks ix rws =
     (if dbHead ix \<noteq> None
      then (case root (indexById ix) of
              None \<Rightarrow> Inl (TypeError ''cannot read properties of null (reading getMany)'')
            | Some r \<Rightarrow>
                let oldChangeEntries = t_getMany ops blks r (map (\<lambda>c. Str (key c)) rws);
                    oldIndexEntries =
                      map (\<lambda>k. \<lparr>ekey = k, evalue = Undefined, edel = True\<rparr>) oldChangeEntries
                in (case map_throw (\<lambda>e. case index1 (ekey e) of
                                           Inl err \<Rightarrow> Inl err
                                         | Inr k1 \<Rightarrow> Inr \<lparr>ekey = k1, evalue = Undefined, edel = True\<rparr>)
                            oldIndexEntries of
                      Inl err \<Rightarrow> Inl err
                    | Inr removeByIdIndexEntries \<Rightarrow> Inr (oldIndexEntries, removeByIdIndexEntries)))
      else Inr ([], []))"

text \<open>
  The body of the transaction of \<^verbatim>\<open>innerUpdateIndex\<close>: the outcome, with the block
  store after the puts when the body returns, and the index object as the body leaves it.
  The assignments to the index object stay when the body throws.
\<close>

definition update_transaction ::
  "('t, 'ib) tree_ops \<Rightarrow> 'ib \<Rightarrow> 't dbindex \<Rightarrow> changes \<Rightarrow> (js_error + 'ib) \<times> 't dbindex" where
  "update_transaction ops blks ix result =
     (let ix1 = ix\<lparr>indexById := loadIndex ops blks (indexById ix) IdIndexOpts\<rparr>;
          ix2 = ix1\<lparr>indexByKey := loadIndex ops blks (indexByKey ix1) DbIndexOpts\<rparr>
      in case old_entries ops blks ix2 (rows result) of
           Inl err \<Rightarrow> (Inl err, ix2)
         | Inr (oldIndexEntries, removeByIdIndexEntries) \<Rightarrow>
             (case mapFn ix2 of
                None \<Rightarrow> (Inl (Error (missing_mapFn_message (mapFnString ix2))), ix2)
              | Some f \<Rightarrow>
                  let indexEntries = indexEntriesForChanges (encode ops) (rows result) f
                  in (case map_throw (\<lambda>e. case index1 (ekey e) of
                                             Inl err \<Rightarrow> Inl err
                                           | Inr k1 \<Rightarrow> Inr \<lparr>ekey = k1, evalue = ekey e, edel = False\<rparr>)
                              indexEntries of
                        Inl err \<Rightarrow> (Inl err, ix2)
                      | Inr byIdIndexEntries \<Rightarrow>
                          (case bulkIndex ops blks (indexById ix2)
                                  (removeByIdIndexEntries @ byIdIndexEntries) IdIndexOpts of
                             Inl err \<Rightarrow> (Inl err, ix2)
                           | Inr (byId, blocks1) \<Rightarrow>
                               let ix3 = ix2\<lparr>indexById := byId\<rparr>
                               in (case bulkIndex ops blocks1 (indexByKey ix3)
                                         (oldIndexEntries @ indexEntries) DbIndexOpts of
                                     Inl err \<Rightarrow> (Inl err, ix3)
                                   | Inr (byKey, blocks2) \<Rightarrow>
                                       (Inr blocks2,
                                        ix3\<lparr>indexByKey := byKey,
                                            dbHead := Some (rclock result)\<rparr>))))))"

text \<open>
  \<^verbatim>\<open>innerUpdateIndex(inBlocks)\<close> on the index \<open>ix\<close> of the database \<open>db\<close>: it gives
  the outcome, the block store \<open>inBlocks\<close> afterwards, the index and the database.
  \<^verbatim>\<open>ALWAYS_REBUILD\<close> is the constant \<^verbatim>\<open>false\<close>.

  Modelled from the spec: \<^verbatim>\<open>doTransaction\<close> of \<^verbatim>\<open>blockstore.js\<close> is missing from the
  sources. By the specification the blocks a unit of work produces become durable only if
  the unit completes without failure, and a failure is passed on to the caller: when the
  body throws, the block store is the one before the call.
\<close>

definition innerUpdateIndex ::
  "'b engine \<Rightarrow> ('t, 'ib) tree_ops \<Rightarrow> ('b, 'ib) database \<Rightarrow> 't dbindex \<Rightarrow> 'ib
     \<Rightarrow> (js_error + unit) \<times> 'ib \<times> 't dbindex \<times> ('b, 'ib) database" where
  "innerUpdateIndex eng ops db ix inBlocks =
     (let result = changesSince eng (dstore db) (dbHead ix)
      in if length (rows result) = 0
         then (Inr (), inBlocks, ix\<lparr>dbHead := Some (rclock result)\<rparr>, db)
         else (case update_transaction ops inBlocks ix result of
                 (Inl err, ix') \<Rightarrow> (Inl err, inBlocks, ix', db)
               | (Inr blks', ix') \<Rightarrow>
                   (Inr (), blks', ix', db\<lparr>external := external db @ [''dbIndex'']\<rparr>)))"

subsection \<open>Single-flight updates and queries\<close>

text \<open>
  An index at work: the database, the index object, and the number of passes of
  \<^verbatim>\<open>innerUpdateIndex\<close> started so far. A promise is named by the number of the pass
  that made it. \<^verbatim>\<open>updateIndex\<close> is called on the index block store of the database,
  as \<^verbatim>\<open>query\<close> calls it.
\<close>

record ('t, 'b, 'ib) world =
  w_db :: "('b, 'ib) database"
  w_index :: "'t dbindex"
  started :: nat

text \<open>
  The call \<^verbatim>\<open>updateIndex(blocks)\<close> up to its \<^verbatim>\<open>return\<close>: it gives the promise of the
  pending pass when there is one, and starts a pass and stores its promise otherwise.
\<close>

definition updateIndex :: "('t, 'b, 'ib) world \<Rightarrow> nat \<times> ('t, 'b, 'ib) world" where
  "updateIndex w =
     (case updateIndexPromise (w_index w) of
        Some p \<Rightarrow> (p, w)
      | None \<Rightarrow>
          (started w,
           w\<lparr>w_index := (w_index w)\<lparr>updateIndexPromise := Some (started w)\<rparr>,
             started := Suc (started w)\<rparr>))"

text \<open>
  The pending pass settles: the body of \<^verbatim>\<open>innerUpdateIndex\<close> has run, and the
  \<^verbatim>\<open>finally\<close> callback clears \<^verbatim>\<open>updateIndexPromise\<close>. The outcome is what every
  holder of the promise receives. Without a pending pass nothing happens.
\<close>

definition settle ::
  "'b engine \<Rightarrow> ('t, 'ib) tree_ops \<Rightarrow> ('t, 'b, 'ib) world
     \<Rightarrow> (js_error + unit) \<times> ('t, 'b, 'ib) world" where
  "settle eng ops w =
     (case updateIndexPromise (w_index w) of
        None \<Rightarrow> (Inr (), w)
      | Some p \<Rightarrow>
          (case innerUpdateIndex eng ops (w_db w) (w_index w) (indexBlocks (w_db w)) of
             (r, blks', ix', db') \<Rightarrow>
               (r, w\<lparr>w_db := db'\<lparr>indexBlocks := blks'\<rparr>,
                     w_index := ix'\<lparr>updateIndexPromise := None\<rparr>\<rparr>)))"

text \<open>\<^verbatim>\<open>await this.updateIndex(blocks)\<close> with no other task in between.\<close>

definition updateIndex_await ::
  "'b engine \<Rightarrow> ('t, 'ib) tree_ops \<Rightarrow> ('t, 'b, 'ib) world
     \<Rightarrow> (js_error + unit) \<times> ('t, 'b, 'ib) world" where
  "updateIndex_await eng ops w = settle eng ops (snd (updateIndex w))"

record out_row =
  oid :: jsval
  okey :: jsval
  ovalue :: jsval

text \<open>
  \<^verbatim>\<open>query(query, update = true)\<close>: the rows of the answer. The proof of the answer,
  the identifiers of the blocks read, is not part of the model.
\<close>

definition query ::
  "'b engine \<Rightarrow> ('t, 'ib) tree_ops \<Rightarrow> ('t, 'b, 'ib) world \<Rightarrow> query \<Rightarrow> bool
     \<Rightarrow> (js_error + out_row list) \<times> ('t, 'b, 'ib) world" where
  "query eng ops w q update =
     (case (if update then updateIndex_await eng ops w else (Inr (), w)) of
        (Inl err, w1) \<Rightarrow> (Inl err, w1)
      | (Inr u, w1) \<Rightarrow>
          (case doIndexQuery ops (indexBlocks (w_db w1)) (indexByKey (w_index w1)) q of
             (response, byKey) \<Rightarrow>
               let w2 = w1\<lparr>w_index := (w_index w1)\<lparr>indexByKey := byKey\<rparr>\<rparr>
               in (case response of
                     Inl err \<Rightarrow> (Inl err, w2)
                   | Inr rs \<Rightarrow>
                       (Inr (map (\<lambda>r. \<lparr>oid = rid r, okey = decode ops (rkey r), ovalue = row r\<rparr>) rs),
                        w2))))"

section \<open>The Merkle-clock engine, modelled from the specification\<close>

text \<open>
  Modelled from the spec: the Merkle-clock engine (\<^verbatim>\<open>put\<close>, \<^verbatim>\<open>get\<close>, \<^verbatim>\<open>getAll\<close>,
  \<^verbatim>\<open>eventsSince\<close> of \<^verbatim>\<open>prolly.js\<close>) and the block committer of
  \<^verbatim>\<open>blockstore.js\<close> are missing from the sources. The specification describes the
  document log as append-only, a clock as the frontier of the log, a commit as appending
  one event and producing a new clock or, on failure, no result, a deletion as a put-event
  whose value is absent (a soft delete: the document is unreachable through \<^verbatim>\<open>get\<close> and
  its history stays in the log), \<^verbatim>\<open>get\<close> as the latest value of an identifier or null,
  \<^verbatim>\<open>getAll\<close> as the list of the \<^verbatim>\<open>{key, value}\<close> pairs at a clock, and
  \<^verbatim>\<open>eventsSince\<close> as the events between two clocks. The model is a single-writer log:
  the block store is the list of committed events and a flag that says whether the storage
  layer accepts a commit; the identifier of an event is its position, counted from one.
\<close>

record log_blocks =
  events :: "dbevent list"
  writable :: bool

definition clock_pos :: "clock \<Rightarrow> nat" where
  "clock_pos c = fold max c 0"

definition visible :: "log_blocks \<Rightarrow> clock \<Rightarrow> dbevent list" where
  "visible b c = take (clock_pos c) (events b)"

definition event_of :: "change \<Rightarrow> dbevent" where
  "event_of ev =
     \<lparr>evkey = key ev, evtype = (if del ev then DelEvent else PutEvent), evvalue = val ev\<rparr>"

definition log_put :: "log_blocks \<Rightarrow> clock \<Rightarrow> change \<Rightarrow> clock option \<times> log_blocks" where
  "log_put b c ev =
     (if writable b
      then (Some [Suc (length (events b))], b\<lparr>events := events b @ [event_of ev]\<rparr>)
      else (None, b))"

definition tree_step :: "(string \<times> jsval) list \<Rightarrow> dbevent \<Rightarrow> (string \<times> jsval) list" where
  "tree_step m e =
     (if evtype e = DelEvent then AList.delete (evkey e) m
      else AList.update (evkey e) (evvalue e) m)"

definition log_getAll :: "log_blocks \<Rightarrow> clock \<Rightarrow> (string \<times> jsval) list" where
  "log_getAll b c = foldl tree_step [] (visible b c)"

definition log_get :: "log_blocks \<Rightarrow> clock \<Rightarrow> string \<Rightarrow> jsval" where
  "log_get b c k = (case map_of (log_getAll b c) k of None \<Rightarrow> Null | Some v \<Rightarrow> v)"

definition log_eventsSince :: "log_blocks \<Rightarrow> clock \<Rightarrow> clock \<Rightarrow> dbevent list" where
  "log_eventsSince b c since = drop (clock_pos since) (visible b c)"

definition log_engine :: "log_blocks engine" where
  "log_engine =
     \<lparr>e_put = log_put, e_get = log_get, e_getAll = log_getAll, e_eventsSince = log_eventsSince\<rparr>"

text \<open>The most recent event of a key in a list of events in log order.\<close>

definition latest :: "string \<Rightarrow> dbevent list \<Rightarrow> dbevent option" where
  "latest k es = List.find (\<lambda>e. evkey e = k) (rev es)"

section \<open>A list-backed instance of the chunked-tree interface\<close>

text \<open>
  For evaluating the index on concrete data: a tree is the association list of its
  entries in insertion order, its content identifier is the array of its entries, the
  block store is the list of the blocks put, and keys are encoded by themselves.
\<close>

type_synonym list_tree = "(jsval \<times> jsval) list"

definition lt_apply :: "list_tree \<Rightarrow> entry \<Rightarrow> list_tree" where
  "lt_apply t e =
     (if edel e then AList.delete (ekey e) t else AList.update (ekey e) (evalue e) t)"

definition lt_cid :: "list_tree \<Rightarrow> jsval" where
  "lt_cid t = Arr (map (\<lambda>(k, v). Arr [k, v]) t)"

definition lt_load :: "jsval \<Rightarrow> list_tree" where
  "lt_load c =
     (case c of
        Arr xs \<Rightarrow> map (\<lambda>x. case x of Arr ys \<Rightarrow> (at_or_undefined ys 0, at_or_undefined ys 1)
                                  | _ \<Rightarrow> (Undefined, Undefined)) xs
      | _ \<Rightarrow> [])"

definition lt_getMany :: "list_tree \<Rightarrow> jsval list \<Rightarrow> jsval list" where
  "lt_getMany t ks = concat (map (\<lambda>k. case map_of t k of None \<Rightarrow> [] | Some v \<Rightarrow> [v]) ks)"

definition lt_rows :: "list_tree \<Rightarrow> (jsval \<Rightarrow> bool) \<Rightarrow> qrow list" where
  "lt_rows t P =
     concat (map (\<lambda>(k, v). case k of
                              Arr ys \<Rightarrow> if P (at_or_undefined ys 0)
                                         then [\<lparr>rid = at_or_undefined ys 1,
                                                rkey = at_or_undefined ys 0, row = v\<rparr>]
                                         else []
                            | _ \<Rightarrow> []) t)"

definition list_tree_ops :: "(list_tree, block list) tree_ops" where
  "list_tree_ops =
     \<lparr>t_create = (\<lambda>blks opts es. [foldl lt_apply [] es]),
      t_load = (\<lambda>blks opts c. lt_load c),
      t_bulk = (\<lambda>blks t es. (foldl lt_apply t es, [])),
      t_block = (\<lambda>t. (lt_cid t, lt_cid t)),
      t_getMany = (\<lambda>blks t ks. lt_getMany t ks),
      t_range = (\<lambda>blks t bounds.
                   lt_rows t (\<lambda>k. simpleCompare (at_or_undefined bounds 0) k \<le> 0
                                  \<and> simpleCompare k (at_or_undefined bounds 1) \<le> 0)),
      t_get = (\<lambda>blks t k. lt_rows t (\<lambda>k'. k' = k)),
      t_getAllEntries = (\<lambda>blks t. map (\<lambda>(k, v). \<lparr>ekey = k, evalue = v, edel = False\<rparr>) t),
      putBlock = (\<lambda>blks b. blks @ [b]),
      encode = (\<lambda>k. k),
      decode = (\<lambda>k. k)\<rparr>"

section \<open>Concrete inputs\<close>

text \<open>The row \<^verbatim>\<open>changesSince\<close> makes of an event of the engine.\<close>

definition change_of :: "dbevent \<Rightarrow> change" where
  "change_of e =
     (if evtype e = DelEvent then \<lparr>key = evkey e, val = Undefined, del = True\<rparr>
      else \<lparr>key = evkey e, val = evvalue e, del = False\<rparr>)"

definition field :: "(string \<times> jsval) list \<Rightarrow> string \<Rightarrow> jsval" where
  "field fs k = (case map_of fs k of None \<Rightarrow> Undefined | Some v \<Rightarrow> v)"

text \<open>The map function \<^verbatim>\<open>function (doc, emit) { emit(doc.x, doc._id) }\<close>.\<close>

definition emit_x :: mapfn where
  "emit_x =
     \<lparr>source = ''function (doc, emit) { emit(doc.x, doc._id) }'',
      run = (\<lambda>doc. case doc of Obj fs \<Rightarrow> [(field fs ''x'', field fs ''_id'')] | _ \<Rightarrow> [])\<rparr>"

text \<open>
  Four change rows: a document with a field \<open>x\<close>, a row marked deleted, a row whose
  value is null, and a document without the field \<open>x\<close>.
\<close>

definition sample_changes :: "change list" where
  "sample_changes =
     [\<lparr>key = ''a'', val = Obj [(''x'', Num (Fin 1))], del = False\<rparr>,
      \<lparr>key = ''b'', val = Undefined, del = True\<rparr>,
      \<lparr>key = ''c'', val = Null, del = False\<rparr>,
      \<lparr>key = ''d'', val = Obj [(''y'', Num (Fin 2))], del = False\<rparr>]"

text \<open>
  A log of five events, among them a deletion of \<open>a\<close> and two values of \<open>c\<close>, and a
  store at its end.
\<close>

definition sample_log :: log_blocks where
  "sample_log =
     \<lparr>events =
        [\<lparr>evkey = ''a'', evtype = PutEvent, evvalue = Obj [(''x'', Num (Fin 1))]\<rparr>,
         \<lparr>evkey = ''b'', evtype = PutEvent, evvalue = Obj [(''x'', Num (Fin 2))]\<rparr>,
         \<lparr>evkey = ''a'', evtype = DelEvent, evvalue = Null\<rparr>,
         \<lparr>evkey = ''c'', evtype = PutEvent, evvalue = Obj [(''x'', Num (Fin 3))]\<rparr>,
         \<lparr>evkey = ''c'', evtype = PutEvent, evvalue = Obj [(''x'', Num (Fin 4))]\<rparr>],
      writable = True\<rparr>"

definition sample_store :: "log_blocks store" where
  "sample_store =
     \<lparr>blocks = sample_log, clock = [5], validateChange = None, authCtx = Obj [],
      listeners = [0, 1], delivered = []\<rparr>"

text \<open>The same store on a storage layer that refuses commits.\<close>

definition readonly_store :: "log_blocks store" where
  "readonly_store = sample_store\<lparr>blocks := sample_log\<lparr>writable := False\<rparr>\<rparr>"

text \<open>
  A store with one listener on an empty log, and the store after
  \<^verbatim>\<open>put({ _id: 'a', x: 1 })\<close> and \<^verbatim>\<open>del('a')\<close>.
\<close>

definition empty_store :: "log_blocks store" where
  "empty_store =
     \<lparr>blocks = \<lparr>events = [], writable = True\<rparr>, clock = [], validateChange = None,
      authCtx = Obj [], listeners = [0], delivered = []\<rparr>"

definition deleted_store :: "log_blocks store" where
  "deleted_store =
     snd (del_doc log_engine
            (snd (put log_engine ''r'' empty_store (Some ''a'') [(''x'', Num (Fin 1))])) ''a'')"

text \<open>
  Three indexes of the map function \<open>emit_x\<close>: one made with the live function and
  never built; one made from the persisted descriptor of a built index, without the
  function; and one made from the descriptor
  \<^verbatim>\<open>{ code, clock: { db: [3], byId: null, byKey: null } }\<close>, which is what an index
  whose first build emitted nothing persists.
\<close>

definition fresh_index :: "list_tree dbindex" where
  "fresh_index =
     \<lparr>mapFn = Some emit_x, mapFnString = source emit_x,
      indexById = \<lparr>root = None, cid = Null\<rparr>, indexByKey = \<lparr>root = None, cid = Null\<rparr>,
      dbHead = None, updateIndexPromise = None\<rparr>"

definition stored_index :: "list_tree dbindex" where
  "stored_index =
     \<lparr>mapFn = None, mapFnString = source emit_x,
      indexById = \<lparr>root = None, cid = Arr [Arr [Str ''b'', Arr [Num (Fin 2), Str ''b'']]]\<rparr>,
      indexByKey = \<lparr>root = None, cid = Arr [Arr [Arr [Num (Fin 2), Str ''b''], Str ''b'']]\<rparr>,
      dbHead = Some [2], updateIndexPromise = None\<rparr>"

definition empty_stored_index :: "list_tree dbindex" where
  "empty_stored_index =
     \<lparr>mapFn = None, mapFnString = source emit_x,
      indexById = \<lparr>root = None, cid = Null\<rparr>, indexByKey = \<lparr>root = None, cid = Null\<rparr>,
      dbHead = Some [3], updateIndexPromise = None\<rparr>"

definition sample_db :: "(log_blocks, block list) database" where
  "sample_db = \<lparr>dstore = sample_store, indexBlocks = [], indexes = Map.empty, external = []\<rparr>"

definition sample_world :: "(list_tree, log_blocks, block list) world" where
  "sample_world = \<lparr>w_db = sample_db, w_index = fresh_index, started = 0\<rparr>"

text \<open>
  A heap of two index objects, the stored one at address 0 and registered, the fresh one
  at address 1.
\<close>

definition sample_heap :: "list_tree heap" where
  "sample_heap = [0 \<mapsto> stored_index, 1 \<mapsto> fresh_index]"

definition registered_db :: "(log_blocks, block list) database" where
  "registered_db = sample_db\<lparr>indexes := [source emit_x \<mapsto> 0]\<rparr>"

text \<open>
  A store of three documents, two of them with the same value of \<open>x\<close>, and a fresh
  index on it.
\<close>

definition twin_store :: "log_blocks store" where
  "twin_store =
     \<lparr>blocks =
        \<lparr>events =
           [\<lparr>evkey = ''a'', evtype = PutEvent, evvalue = Obj [(''x'', Num (Fin 1))]\<rparr>,
            \<lparr>evkey = ''b'', evtype = PutEvent, evvalue = Obj [(''x'', Num (Fin 1))]\<rparr>,
            \<lparr>evkey = ''c'', evtype = PutEvent, evvalue = Obj [(''x'', Num (Fin 2))]\<rparr>],
         writable = True\<rparr>,
      clock = [3], validateChange = None, authCtx = Obj [], listeners = [], delivered = []\<rparr>"

definition twin_world :: "(list_tree, log_blocks, block list) world" where
  "twin_world = \<lparr>w_db = sample_db\<lparr>dstore := twin_store\<rparr>, w_index = fresh_index, started = 0\<rparr>"

text \<open>The index after the two \<^verbatim>\<open>loadIndex\<close> calls that open the transaction of an update.\<close>

definition load_roots :: "('t, 'ib) tree_ops \<Rightarrow> 'ib \<Rightarrow> 't dbindex \<Rightarrow> 't dbindex" where
  "load_roots ops blks ix =
     ix\<lparr>indexById := loadIndex ops blks (indexById ix) IdIndexOpts,
        indexByKey := loadIndex ops blks (indexByKey ix) DbIndexOpts\<rparr>"

section \<open>Properties\<close>

text \<open>The definitions that evaluate the model on concrete inputs.\<close>

lemmas store_defs =
  changesSince_def docsMap_step_def notifyListeners_def get_def runValidation_def
  putToProllyTree_def new_id_def put_def del_doc_def makeDoc_def obj_set_def is_array_index_def
  is_digit_def

lemmas engine_defs =
  log_engine_def log_put_def log_get_def log_getAll_def log_eventsSince_def tree_step_def
  visible_def clock_pos_def event_of_def

lemmas tree_defs =
  list_tree_ops_def lt_apply_def lt_cid_def lt_load_def lt_getMany_def lt_rows_def
  at_or_undefined_def composite_def simpleCompare_def js_strict_eq_def

lemmas index_defs =
  loadIndex_def slice0_def applyLimit_def doIndexQuery_def bulk_root_def put_blocks_def
  bulkIndex_def old_entries_def update_transaction_def innerUpdateIndex_def
  updateIndex_def settle_def updateIndex_await_def query_def
  indexEntriesForChanges_def indexEntriesForChanges_run_def change_step_def emit_cb_def
  missing_mapFn_message_def

lemmas sample_defs =
  sample_log_def sample_store_def sample_db_def sample_world_def fresh_index_def
  stored_index_def empty_stored_index_def emit_x_def field_def twin_store_def twin_world_def

subsection \<open>The comparators\<close>

text \<open>
  Claim C7. On numeric secondary references: a left reference that is NaN sorts before
  (the result is -1) whatever the right reference is; a left reference that is a number
  other than NaN against a right reference that is NaN fails with an error; the left
  reference \<^verbatim>\<open>Infinity\<close> sorts after (the result is 1) every finite reference. This
  holds of \<^verbatim>\<open>refCompare\<close>, and of \<^verbatim>\<open>compare\<close> on composite keys whose primary keys
  compare equal, which is when \<^verbatim>\<open>compare\<close> looks at the references.
\<close>

theorem refCompare_numeric_refs:
  "refCompare sc (Num NaN) bRef = Inr (- 1)
   \<and> (a \<noteq> NaN \<longrightarrow> refCompare sc (Num a) (Num NaN) = Inl (Error ''ref may not be Infinity or NaN''))
   \<and> refCompare sc (Num PosInf) (Num (Fin y)) = Inr 1
   \<and> (sc aKey bKey = 0 \<longrightarrow>
        compare sc (composite aKey (Num NaN)) (composite bKey bRef) = Inr (- 1)
        \<and> (a \<noteq> NaN \<longrightarrow> compare sc (composite aKey (Num a)) (composite bKey (Num NaN))
               = Inl (Error ''ref may not be Infinity or NaN''))
        \<and> compare sc (composite aKey (Num PosInf)) (composite bKey (Num (Fin y))) = Inr 1)"
  by (simp add: refCompare_def compare_def composite_def isNaN_def at_or_undefined_def)

theorem refCompare_numeric_refs_witness:
  "simpleCompare (Str ''k'') (Str ''k'') = 0
   \<and> Fin 3 \<noteq> NaN
   \<and> refCompare simpleCompare (Num NaN) (Num (Fin 7)) = Inr (- 1)
   \<and> refCompare simpleCompare (Num (Fin 3)) (Num NaN) = Inl (Error ''ref may not be Infinity or NaN'')
   \<and> refCompare simpleCompare (Num PosInf) (Num (Fin 5)) = Inr 1
   \<and> compare simpleCompare (composite (Str ''k'') (Num NaN)) (composite (Str ''k'') (Num (Fin 7)))
        = Inr (- 1)
   \<and> compare simpleCompare (composite (Str ''k'') (Num (Fin 3))) (composite (Str ''k'') (Num NaN))
        = Inl (Error ''ref may not be Infinity or NaN'')
   \<and> compare simpleCompare (composite (Str ''k'') (Num PosInf)) (composite (Str ''k'') (Num (Fin 5)))
        = Inr 1"
  using refCompare_numeric_refs [of simpleCompare "Num (Fin 7)" "Fin 3" 5 "Str ''k''" "Str ''k''"]
  by (simp add: simpleCompare_def js_strict_eq_def)

subsection \<open>Index entries from changes\<close>

lemma foldl_emit_cb:
  "foldl (emit_cb enc k) es ems =
     es @ map (\<lambda>(k', v). \<lparr>ekey = composite (enc k') (Str k), evalue = v, edel = False\<rparr>)
            (filter (\<lambda>(k', v). v \<noteq> Undefined \<and> k' \<noteq> Undefined) ems)"
  by (induction ems arbitrary: es) (auto simp: emit_cb_def)

lemma foldl_change_step:
  "foldl (change_step enc f) st cs =
     \<lparr>pushed = pushed st @
        concat (map (\<lambda>c. map (\<lambda>(k', v). \<lparr>ekey = composite (enc k') (Str (key c)), evalue = v,
                                          edel = False\<rparr>)
                        (filter (\<lambda>(k', v). v \<noteq> Undefined \<and> k' \<noteq> Undefined)
                           (run f (makeDoc (key c) (val c)))))
                  (filter (\<lambda>c. \<not> del c \<and> truthy (val c)) cs)),
      invoked = invoked st @
        map (\<lambda>c. makeDoc (key c) (val c)) (filter (\<lambda>c. \<not> del c \<and> truthy (val c)) cs)\<rparr>"
  by (induction cs arbitrary: st) (auto simp: change_step_def foldl_emit_cb Let_def)

text \<open>
  Claim C10. The entries of an index update are, row by row in order, the emissions of
  the map function whose key and value are both defined, each as an entry under the
  composite key of the encoded emitted key and the document id; an emission whose key or
  value is undefined gives no entry. The map function is invoked on the documents of
  exactly the rows that are not marked deleted and carry a truthy value, so a row that
  is marked deleted or carries no value is skipped without a call.
\<close>

theorem indexEntriesForChanges_emissions:
  "indexEntriesForChanges enc cs f =
     concat (map (\<lambda>c. map (\<lambda>(k', v). \<lparr>ekey = composite (enc k') (Str (key c)), evalue = v,
                                       edel = False\<rparr>)
                     (filter (\<lambda>(k', v). v \<noteq> Undefined \<and> k' \<noteq> Undefined)
                        (run f (makeDoc (key c) (val c)))))
               (filter (\<lambda>c. \<not> del c \<and> truthy (val c)) cs))
   \<and> invoked (indexEntriesForChanges_run enc cs f) =
       map (\<lambda>c. makeDoc (key c) (val c)) (filter (\<lambda>c. \<not> del c \<and> truthy (val c)) cs)"
  by (simp add: indexEntriesForChanges_def indexEntriesForChanges_run_def foldl_change_step)

theorem indexEntriesForChanges_emissions_witness:
  "indexEntriesForChanges (\<lambda>k. k) sample_changes emit_x =
     [\<lparr>ekey = Arr [Num (Fin 1), Str ''a''], evalue = Str ''a'', edel = False\<rparr>]
   \<and> invoked (indexEntriesForChanges_run (\<lambda>k. k) sample_changes emit_x) =
       [Obj [(''_id'', Str ''a''), (''x'', Num (Fin 1))],
        Obj [(''_id'', Str ''d''), (''y'', Num (Fin 2))]]"
  using indexEntriesForChanges_emissions [of "\<lambda>k. k" sample_changes emit_x]
  by (simp add: sample_changes_def emit_x_def makeDoc_def obj_set_def is_array_index_def
      is_digit_def field_def composite_def)

subsection \<open>Changes since a clock\<close>

lemma latest_Nil [simp]: "latest k [] = None"
  by (simp add: latest_def)

lemma latest_snoc [simp]:
  "latest k (es @ [e]) = (if evkey e = k then Some e else latest k es)"
  by (simp add: latest_def)

lemma latest_Some_mem: "latest k es = Some e \<Longrightarrow> e \<in> set es \<and> evkey e = k"
  by (induction es rule: rev_induct) (auto split: if_splits)

lemma latest_None_iff: "latest k es = None \<longleftrightarrow> k \<notin> evkey ` set es"
  by (induction es rule: rev_induct) auto

lemma docsMap_step_update: "docsMap_step m e = AList.update (evkey e) (change_of e) m"
  by (simp add: docsMap_step_def change_of_def)

lemma key_change_of [simp]: "key (change_of e) = evkey e"
  by (simp add: change_of_def)

lemma docsMap_map_of:
  "map_of (foldl docsMap_step m es) k =
     (case latest k es of None \<Rightarrow> map_of m k | Some e \<Rightarrow> Some (change_of e))"
  by (induction es rule: rev_induct) (auto simp: docsMap_step_update update_conv')

lemma docsMap_distinct:
  "distinct (map fst m) \<Longrightarrow> distinct (map fst (foldl docsMap_step m es))"
  by (induction es rule: rev_induct) (auto simp: docsMap_step_update distinct_update)

lemma docsMap_keys:
  "fst ` set (foldl docsMap_step m es) = fst ` set m \<union> evkey ` set es"
  by (induction es rule: rev_induct) (auto simp: docsMap_step_update dom_update)

lemma docsMap_rows:
  assumes "p \<in> set (foldl docsMap_step [] es)"
  shows "\<exists>e. latest (fst p) es = Some e \<and> snd p = change_of e"
proof -
  have d: "distinct (map fst (foldl docsMap_step [] es))"
    by (rule docsMap_distinct) simp
  from assms d have "map_of (foldl docsMap_step [] es) (fst p) = Some (snd p)"
    by (metis map_of_eq_Some_iff prod.collapse)
  then show ?thesis
    by (simp add: docsMap_map_of split: option.splits)
qed

lemma docsMap_key_fst:
  assumes "p \<in> set (foldl docsMap_step [] es)"
  shows "key (snd p) = fst p"
  using docsMap_rows [OF assms] latest_Some_mem by fastforce

lemma changesSince_collapse:
  "let resp = e_eventsSince eng (blocks s) (clock s) prior;
       rs = rows (changesSince eng s (Some prior))
   in distinct (map key rs)
      \<and> set (map key rs) = evkey ` set resp
      \<and> (\<forall>r \<in> set rs. \<exists>e. latest (key r) resp = Some e \<and>
            r = (if evtype e = DelEvent then \<lparr>key = evkey e, val = Undefined, del = True\<rparr>
                 else \<lparr>key = evkey e, val = evvalue e, del = False\<rparr>))
      \<and> rclock (changesSince eng s (Some prior)) = clock s"
proof -
  define resp where "resp = e_eventsSince eng (blocks s) (clock s) prior"
  define dm where "dm = foldl docsMap_step [] resp"
  have rs: "rows (changesSince eng s (Some prior)) = map snd dm"
    by (simp add: changesSince_def dm_def resp_def Let_def)
  have kf: "map key (map snd dm) = map fst dm"
    using docsMap_key_fst by (auto simp: dm_def)
  have "distinct (map fst dm)"
    unfolding dm_def by (rule docsMap_distinct) simp
  then have 1: "distinct (map key (map snd dm))"
    by (simp only: kf)
  have "set (map fst dm) = evkey ` set resp"
    using docsMap_keys [of "[]" resp] by (simp add: dm_def)
  then have 2: "set (map key (map snd dm)) = evkey ` set resp"
    by (simp only: kf)
  have 3: "\<exists>e. latest (key r) resp = Some e \<and> r = change_of e" if "r \<in> set (map snd dm)" for r
  proof -
    from that obtain p where p: "p \<in> set dm" "r = snd p" by auto
    from p(1) have "key (snd p) = fst p" using docsMap_key_fst by (simp add: dm_def)
    with docsMap_rows [of p resp] p show ?thesis by (auto simp: dm_def)
  qed
  have 4: "rclock (changesSince eng s (Some prior)) = clock s"
    by (simp add: changesSince_def Let_def)
  show ?thesis
    unfolding Let_def resp_def [symmetric] rs
    using 1 2 3 4 by (auto simp: change_of_def)
qed

lemma del_doc_success:
  assumes "fst (del_doc log_engine s i) = Inr res"
  shows "visible (blocks (snd (del_doc log_engine s i))) (clock (snd (del_doc log_engine s i)))
           = events (blocks s) @ [\<lparr>evkey = i, evtype = PutEvent, evvalue = Null\<rparr>]"
  using assms
  by (auto simp: del_doc_def putToProllyTree_def log_engine_def log_put_def notifyListeners_def
      visible_def clock_pos_def event_of_def Let_def split: sum.splits if_splits)

lemma del_doc_events_since:
  assumes ok: "fst (del_doc log_engine t i) = Inr res"
    and prior: "clock_pos prior \<le> length (events (blocks t))"
  shows "e_eventsSince log_engine (blocks (snd (del_doc log_engine t i)))
           (clock (snd (del_doc log_engine t i))) prior
         = drop (clock_pos prior) (events (blocks t))
           @ [\<lparr>evkey = i, evtype = PutEvent, evvalue = Null\<rparr>]"
proof -
  have "e_eventsSince log_engine = log_eventsSince"
    by (simp add: log_engine_def)
  then show ?thesis
    using prior by (simp add: log_eventsSince_def del_doc_success [OF ok])
qed

lemma docsMap_latest_row:
  assumes "latest k es = Some e"
  shows "change_of e \<in> set (map snd (foldl docsMap_step [] es))"
proof -
  have "map_of (foldl docsMap_step [] es) k = Some (change_of e)"
    using assms by (simp add: docsMap_map_of)
  then have "(k, change_of e) \<in> set (foldl docsMap_step [] es)"
    by (rule map_of_SomeD)
  then show ?thesis
    by force
qed

text \<open>
  Claim C3, as amended. Given a prior clock, the rows of \<^verbatim>\<open>changesSince\<close> have
  pairwise different ids, the ids are exactly the ids of the events the engine reports
  between the prior clock and the current one, and the row of an id is made of the most
  recent of these events for that id: an event of type del gives a row with the flag
  \<open>del\<close> and no value, any other event a row with the event's value and without the
  flag, so that no row is flagged when the engine reports no event of type del. The clock
  returned is the current clock of the store. A deletion made with \<^verbatim>\<open>del\<close> is not an
  event of type del: \<^verbatim>\<open>del\<close> commits a put-event whose value is null, and on the
  engine modelled from the specification the changes since any earlier clock then hold,
  for the deleted id, the row with the value null and without the flag.
\<close>

theorem changesSince_prior_clock:
  "(let resp = e_eventsSince eng (blocks s) (clock s) prior;
        rs = rows (changesSince eng s (Some prior))
    in distinct (map key rs)
       \<and> set (map key rs) = evkey ` set resp
       \<and> (\<forall>r \<in> set rs. \<exists>e. latest (key r) resp = Some e \<and>
             r = (if evtype e = DelEvent then \<lparr>key = evkey e, val = Undefined, del = True\<rparr>
                  else \<lparr>key = evkey e, val = evvalue e, del = False\<rparr>))
       \<and> ((\<forall>e \<in> set resp. evtype e = PutEvent) \<longrightarrow> (\<forall>r \<in> set rs. \<not> del r))
       \<and> rclock (changesSince eng s (Some prior)) = clock s)
   \<and> (fst (del_doc log_engine t i) = Inr res \<and> clock_pos prior \<le> length (events (blocks t)) \<longrightarrow>
        \<lparr>key = i, val = Null, del = False\<rparr>
          \<in> set (rows (changesSince log_engine (snd (del_doc log_engine t i)) (Some prior))))"
proof (intro conjI impI)
  define resp where "resp = e_eventsSince eng (blocks s) (clock s) prior"
  define rs where "rs = rows (changesSince eng s (Some prior))"
  from changesSince_collapse [of eng s prior]
  have c: "distinct (map key rs)" "set (map key rs) = evkey ` set resp"
    "\<forall>r \<in> set rs. \<exists>e. latest (key r) resp = Some e \<and>
             r = (if evtype e = DelEvent then \<lparr>key = evkey e, val = Undefined, del = True\<rparr>
                  else \<lparr>key = evkey e, val = evvalue e, del = False\<rparr>)"
    "rclock (changesSince eng s (Some prior)) = clock s"
    by (simp_all add: Let_def resp_def rs_def)
  have "\<not> del r" if put: "\<forall>e \<in> set resp. evtype e = PutEvent" and r: "r \<in> set rs" for r
  proof -
    from c(3) r obtain e where e: "latest (key r) resp = Some e"
      "r = (if evtype e = DelEvent then \<lparr>key = evkey e, val = Undefined, del = True\<rparr>
            else \<lparr>key = evkey e, val = evvalue e, del = False\<rparr>)"
      by blast
    from e(1) have "e \<in> set resp" by (simp add: latest_Some_mem)
    with put have "evtype e = PutEvent" by blast
    with e(2) show ?thesis by simp
  qed
  with c show "let resp = e_eventsSince eng (blocks s) (clock s) prior;
        rs = rows (changesSince eng s (Some prior))
    in distinct (map key rs)
       \<and> set (map key rs) = evkey ` set resp
       \<and> (\<forall>r \<in> set rs. \<exists>e. latest (key r) resp = Some e \<and>
             r = (if evtype e = DelEvent then \<lparr>key = evkey e, val = Undefined, del = True\<rparr>
                  else \<lparr>key = evkey e, val = evvalue e, del = False\<rparr>))
       \<and> ((\<forall>e \<in> set resp. evtype e = PutEvent) \<longrightarrow> (\<forall>r \<in> set rs. \<not> del r))
       \<and> rclock (changesSince eng s (Some prior)) = clock s"
    unfolding Let_def resp_def [symmetric] rs_def [symmetric] by blast
next
  assume a: "fst (del_doc log_engine t i) = Inr res \<and> clock_pos prior \<le> length (events (blocks t))"
  define t' where "t' = snd (del_doc log_engine t i)"
  define tomb where "tomb = \<lparr>evkey = i, evtype = PutEvent, evvalue = Null\<rparr>"
  have resp: "e_eventsSince log_engine (blocks t') (clock t') prior
      = drop (clock_pos prior) (events (blocks t)) @ [tomb]"
    using a by (simp add: t'_def tomb_def del_doc_events_since)
  have "latest i (drop (clock_pos prior) (events (blocks t)) @ [tomb]) = Some tomb"
    by (simp add: tomb_def)
  then have "change_of tomb \<in> set (map snd (foldl docsMap_step []
      (drop (clock_pos prior) (events (blocks t)) @ [tomb])))"
    by (rule docsMap_latest_row)
  moreover have "change_of tomb = \<lparr>key = i, val = Null, del = False\<rparr>"
    by (simp add: change_of_def tomb_def)
  moreover have "rows (changesSince log_engine t' (Some prior)) =
      map snd (foldl docsMap_step [] (e_eventsSince log_engine (blocks t') (clock t') prior))"
    by (simp add: changesSince_def Let_def)
  ultimately show "\<lparr>key = i, val = Null, del = False\<rparr>
          \<in> set (rows (changesSince log_engine (snd (del_doc log_engine t i)) (Some prior)))"
    unfolding t'_def [symmetric] resp by (simp only:)
qed

theorem changesSince_prior_clock_witness:
  "e_eventsSince log_engine (blocks sample_store) (clock sample_store) [1] =
     [\<lparr>evkey = ''b'', evtype = PutEvent, evvalue = Obj [(''x'', Num (Fin 2))]\<rparr>,
      \<lparr>evkey = ''a'', evtype = DelEvent, evvalue = Null\<rparr>,
      \<lparr>evkey = ''c'', evtype = PutEvent, evvalue = Obj [(''x'', Num (Fin 3))]\<rparr>,
      \<lparr>evkey = ''c'', evtype = PutEvent, evvalue = Obj [(''x'', Num (Fin 4))]\<rparr>]
   \<and> rows (changesSince log_engine sample_store (Some [1])) =
       [\<lparr>key = ''b'', val = Obj [(''x'', Num (Fin 2))], del = False\<rparr>,
        \<lparr>key = ''a'', val = Undefined, del = True\<rparr>,
        \<lparr>key = ''c'', val = Obj [(''x'', Num (Fin 4))], del = False\<rparr>]
   \<and> distinct (map key (rows (changesSince log_engine sample_store (Some [1]))))
   \<and> set (map key (rows (changesSince log_engine sample_store (Some [1])))) = {''a'', ''b'', ''c''}
   \<and> rclock (changesSince log_engine sample_store (Some [1])) = [5]
   \<and> fst (del_doc log_engine
             (snd (put log_engine ''r'' empty_store (Some ''a'') [(''x'', Num (Fin 1))])) ''a'')
       = Inr \<lparr>pid = ''a'', pclock = [2]\<rparr>
   \<and> clock_pos [1]
       \<le> length (events (blocks
             (snd (put log_engine ''r'' empty_store (Some ''a'') [(''x'', Num (Fin 1))]))))
   \<and> \<lparr>key = ''a'', val = Null, del = False\<rparr>
       \<in> set (rows (changesSince log_engine deleted_store (Some [1])))"
  using changesSince_prior_clock
    [of log_engine sample_store "[1]"
      "snd (put log_engine ''r'' empty_store (Some ''a'') [(''x'', Num (Fin 1))])" "''a''"
      "\<lparr>pid = ''a'', pclock = [2]\<rparr>"]
  by (simp add: Let_def store_defs engine_defs sample_defs deleted_store_def empty_store_def
      insert_commute)

text \<open>
  Claim C3 as stated fails: after \<^verbatim>\<open>put({ _id: 'a', x: 1 })\<close> and \<^verbatim>\<open>del('a')\<close> the
  document is deleted (\<^verbatim>\<open>get\<close> fails with Not found), the engine reports the
  deletion since the clock of the put as a put-event with the value null, and the row of
  the deleted document carries no flag.
\<close>

theorem changesSince_prior_clock_counterexample:
  "e_eventsSince log_engine (blocks deleted_store) (clock deleted_store) [1] =
     [\<lparr>evkey = ''a'', evtype = PutEvent, evvalue = Null\<rparr>]
   \<and> rows (changesSince log_engine deleted_store (Some [1])) =
       [\<lparr>key = ''a'', val = Null, del = False\<rparr>]
   \<and> get log_engine deleted_store ''a'' = Inl (Error ''Not found'')"
  by (simp add: Let_def store_defs engine_defs deleted_store_def empty_store_def)

subsection \<open>The snapshot\<close>

lemma tree_map_of:
  "map_of (foldl tree_step m es) k =
     (case latest k es of
        None \<Rightarrow> map_of m k
      | Some e \<Rightarrow> if evtype e = DelEvent then None else Some (evvalue e))"
  by (induction es rule: rev_induct) (auto simp: tree_step_def update_conv' delete_conv')

lemma tree_distinct:
  "distinct (map fst m) \<Longrightarrow> distinct (map fst (foldl tree_step m es))"
  by (induction es rule: rev_induct) (auto simp: tree_step_def distinct_update distinct_delete)

lemma not_DelEvent [simp]: "t \<noteq> DelEvent \<longleftrightarrow> t = PutEvent"
  by (cases t) auto

lemma tree_mem:
  "(k, v) \<in> set (foldl tree_step [] es) \<longleftrightarrow>
     (\<exists>e. latest k es = Some e \<and> evtype e = PutEvent \<and> evvalue e = v)"
proof -
  have "distinct (map fst (foldl tree_step [] es))"
    by (rule tree_distinct) simp
  then have "(k, v) \<in> set (foldl tree_step [] es) \<longleftrightarrow> map_of (foldl tree_step [] es) k = Some v"
    by simp
  then show ?thesis
    by (auto simp: tree_map_of split: option.splits if_splits)
qed

lemma snapshot_rows:
  "rows (changesSince log_engine s None) =
     map (\<lambda>(k, v). \<lparr>key = k, val = v, del = False\<rparr>)
       (foldl tree_step [] (visible (blocks s) (clock s)))"
  by (simp add: changesSince_def log_engine_def log_getAll_def)

lemma snapshot_keys:
  "map key (map (\<lambda>(k, v). \<lparr>key = k, val = v, del = False\<rparr>) m) = map fst m"
  by (induction m) auto

text \<open>
  Claim C1, as amended. On the engine modelled from the specification, \<^verbatim>\<open>changesSince\<close>
  with no prior clock returns rows with pairwise different ids, one row for every id whose
  most recent event at the current clock is a put-event, carrying the value of that
  event, and no row is flagged as a deletion. A document deleted with \<^verbatim>\<open>del\<close> is
  among them: \<^verbatim>\<open>del\<close> commits a put-event whose value is null, so the snapshot has
  a row for the id with the value null.
\<close>

theorem changesSince_snapshot:
  "(let es = visible (blocks s) (clock s);
        rs = rows (changesSince log_engine s None)
    in distinct (map key rs)
       \<and> (\<forall>k v. (\<lparr>key = k, val = v, del = False\<rparr> \<in> set rs) =
             (\<exists>e. latest k es = Some e \<and> evtype e = PutEvent \<and> evvalue e = v))
       \<and> (\<forall>r \<in> set rs. \<not> del r)
       \<and> rclock (changesSince log_engine s None) = clock s)
   \<and> (fst (del_doc log_engine s i) = Inr res \<longrightarrow>
        \<lparr>key = i, val = Null, del = False\<rparr>
          \<in> set (rows (changesSince log_engine (snd (del_doc log_engine s i)) None)))"
proof -
  define m where "m = foldl tree_step [] (visible (blocks s) (clock s))"
  have rs: "rows (changesSince log_engine s None) = map (\<lambda>(k, v). \<lparr>key = k, val = v, del = False\<rparr>) m"
    by (simp add: snapshot_rows m_def)
  have "distinct (map fst m)"
    unfolding m_def by (rule tree_distinct) simp
  then have 1: "distinct (map key (rows (changesSince log_engine s None)))"
    by (simp only: rs snapshot_keys)
  have mem: "(\<lparr>key = k, val = v, del = False\<rparr> \<in> set (map (\<lambda>(k, v). \<lparr>key = k, val = v, del = False\<rparr>) m'))
      = ((k, v) \<in> set m')" for k v m'
    by (induction m') auto
  have 2: "(\<lparr>key = k, val = v, del = False\<rparr> \<in> set (rows (changesSince log_engine s None))) =
             (\<exists>e. latest k (visible (blocks s) (clock s)) = Some e \<and> evtype e = PutEvent \<and> evvalue e = v)"
    for k v
    unfolding rs mem m_def by (rule tree_mem)
  have 3: "\<forall>r \<in> set (rows (changesSince log_engine s None)). \<not> del r"
    unfolding rs by auto
  have 4: "rclock (changesSince log_engine s None) = clock s"
    by (simp add: changesSince_def)
  have 5: "\<lparr>key = i, val = Null, del = False\<rparr>
          \<in> set (rows (changesSince log_engine (snd (del_doc log_engine s i)) None))"
    if "fst (del_doc log_engine s i) = Inr res"
    unfolding snapshot_rows mem tree_mem del_doc_success [OF that] by simp
  show ?thesis
    unfolding Let_def using 1 2 3 4 5 by blast
qed

theorem changesSince_snapshot_witness:
  "fst (del_doc log_engine (snd (put log_engine ''r'' empty_store (Some ''a'') [(''x'', Num (Fin 1))])) ''a'')
     = Inr \<lparr>pid = ''a'', pclock = [2]\<rparr>
   \<and> rows (changesSince log_engine sample_store None) =
       [\<lparr>key = ''b'', val = Obj [(''x'', Num (Fin 2))], del = False\<rparr>,
        \<lparr>key = ''c'', val = Obj [(''x'', Num (Fin 4))], del = False\<rparr>]
   \<and> \<lparr>key = ''a'', val = Null, del = False\<rparr> \<in> set (rows (changesSince log_engine deleted_store None))"
  using changesSince_snapshot [of "snd (put log_engine ''r'' empty_store (Some ''a'') [(''x'', Num (Fin 1))])" "''a''" "\<lparr>pid = ''a'', pclock = [2]\<rparr>"]
  by (simp add: deleted_store_def empty_store_def sample_store_def sample_log_def
      put_def del_doc_def new_id_def runValidation_def putToProllyTree_def log_engine_def log_put_def
      notifyListeners_def event_of_def changesSince_def log_getAll_def visible_def clock_pos_def
      tree_step_def Let_def)

text \<open>
  Claim C1 as stated fails: after \<^verbatim>\<open>put({ _id: 'a', x: 1 })\<close> and \<^verbatim>\<open>del('a')\<close> the
  document is deleted (\<^verbatim>\<open>get\<close> fails with Not found), and the snapshot still has a
  row for it.
\<close>

theorem changesSince_snapshot_counterexample:
  "rows (changesSince log_engine deleted_store None) = [\<lparr>key = ''a'', val = Null, del = False\<rparr>]
   \<and> get log_engine deleted_store ''a'' = Inl (Error ''Not found'')"
  by (simp add: deleted_store_def empty_store_def
      put_def del_doc_def new_id_def runValidation_def putToProllyTree_def log_engine_def log_put_def
      notifyListeners_def event_of_def changesSince_def log_getAll_def visible_def clock_pos_def
      tree_step_def Let_def get_def log_get_def)

subsection \<open>Commit failure\<close>

lemma putToProllyTree_no_result:
  "fst (e_put eng (blocks s) (clock s) ev) = None \<Longrightarrow>
     putToProllyTree eng s ev =
       (Inl (Error ''failed to put at storage layer''),
        s\<lparr>blocks := snd (e_put eng (blocks s) (clock s) ev)\<rparr>)"
  by (cases "e_put eng (blocks s) (clock s) ev") (simp add: putToProllyTree_def)

text \<open>
  Claim C2. When the engine returns no result for the event of a \<^verbatim>\<open>put\<close> or of a
  \<^verbatim>\<open>del\<close>, the call ends in an error, the clock of the store is the clock before the
  call and no notification is delivered; when the validation hook lets the call through
  to the commit, the error is the storage error.
\<close>

theorem commit_failure_keeps_clock:
  "(fst (e_put eng (blocks s) (clock s)
           \<lparr>key = new_id rnd given_id, val = Obj doc, del = False\<rparr>) = None \<longrightarrow>
      clock (snd (put eng rnd s given_id doc)) = clock s
      \<and> delivered (snd (put eng rnd s given_id doc)) = delivered s
      \<and> isl (fst (put eng rnd s given_id doc))
      \<and> (runValidation eng s (new_id rnd given_id) (makeDoc (new_id rnd given_id) (Obj doc)) = Inr ()
           \<longrightarrow> fst (put eng rnd s given_id doc) = Inl (Error ''failed to put at storage layer'')))
   \<and> (fst (e_put eng (blocks s) (clock s) \<lparr>key = i, val = Null, del = False\<rparr>) = None \<longrightarrow>
      clock (snd (del_doc eng s i)) = clock s
      \<and> delivered (snd (del_doc eng s i)) = delivered s
      \<and> isl (fst (del_doc eng s i))
      \<and> (runValidation eng s i (Obj [(''_id'', Str i), (''_deleted'', Bool True)]) = Inr ()
           \<longrightarrow> fst (del_doc eng s i) = Inl (Error ''failed to put at storage layer'')))"
  by (auto simp: put_def del_doc_def Let_def putToProllyTree_no_result split: sum.splits)

theorem commit_failure_keeps_clock_witness:
  "fst (e_put log_engine (blocks readonly_store) (clock readonly_store)
          \<lparr>key = new_id ''r'' (Some ''a''), val = Obj [(''x'', Num (Fin 1))], del = False\<rparr>) = None
   \<and> fst (e_put log_engine (blocks readonly_store) (clock readonly_store)
          \<lparr>key = ''b'', val = Null, del = False\<rparr>) = None
   \<and> runValidation log_engine readonly_store (new_id ''r'' (Some ''a''))
        (makeDoc (new_id ''r'' (Some ''a'')) (Obj [(''x'', Num (Fin 1))])) = Inr ()
   \<and> runValidation log_engine readonly_store ''b''
        (Obj [(''_id'', Str ''b''), (''_deleted'', Bool True)]) = Inr ()
   \<and> fst (put log_engine ''r'' readonly_store (Some ''a'') [(''x'', Num (Fin 1))])
        = Inl (Error ''failed to put at storage layer'')
   \<and> clock (snd (put log_engine ''r'' readonly_store (Some ''a'') [(''x'', Num (Fin 1))])) = [5]
   \<and> delivered (snd (put log_engine ''r'' readonly_store (Some ''a'') [(''x'', Num (Fin 1))])) = []
   \<and> fst (del_doc log_engine readonly_store ''b'') = Inl (Error ''failed to put at storage layer'')
   \<and> clock (snd (del_doc log_engine readonly_store ''b'')) = [5]
   \<and> delivered (snd (del_doc log_engine readonly_store ''b'')) = []"
  using commit_failure_keeps_clock
    [of log_engine readonly_store "''r''" "Some ''a''" "[(''x'', Num (Fin 1))]" "''b''"]
  by (simp add: log_engine_def log_put_def readonly_store_def sample_store_def sample_log_def
      runValidation_def)

subsection \<open>The registry\<close>

text \<open>
  Claim C6. When an index is registered under a source text that the registry already
  holds, the existing index wins if it has a live map function and the incoming one wins
  otherwise, so the winner has a live map function whenever one of the two has. The
  winner takes the loser's \<open>dbHead\<close> and the content identifiers of the loser's two
  index structures and keeps the rest of its own fields; the registry holds the winner
  under the source text; the other entries of the registry and the other objects are as
  they were.
\<close>

theorem registerWithDatabase_merge:
  "h i = Some inIndex \<and> indexes db (mapFnString inIndex) = Some e \<and> h e = Some existingIndex \<longrightarrow>
     (let h' = fst (registerWithDatabase i h db);
          db' = snd (registerWithDatabase i h db);
          w = (if mapFn existingIndex \<noteq> None then e else i);
          winner = (if mapFn existingIndex \<noteq> None then existingIndex else inIndex);
          loser = (if mapFn existingIndex \<noteq> None then inIndex else existingIndex)
      in indexes db' (mapFnString inIndex) = Some w
         \<and> h' w = Some (winner\<lparr>dbHead := dbHead loser,
                               indexById := (indexById winner)\<lparr>cid := cid (indexById loser)\<rparr>,
                               indexByKey := (indexByKey winner)\<lparr>cid := cid (indexByKey loser)\<rparr>\<rparr>)
         \<and> (mapFn existingIndex \<noteq> None \<or> mapFn inIndex \<noteq> None \<longrightarrow> mapFn winner \<noteq> None)
         \<and> (\<forall>k. k \<noteq> mapFnString inIndex \<longrightarrow> indexes db' k = indexes db k)
         \<and> (\<forall>a. a \<noteq> w \<longrightarrow> h' a = h a))"
  by (auto simp: registerWithDatabase_def Let_def)

theorem registerWithDatabase_merge_witness:
  "sample_heap 1 = Some fresh_index
   \<and> indexes registered_db (mapFnString fresh_index) = Some 0
   \<and> sample_heap 0 = Some stored_index
   \<and> mapFn stored_index = None
   \<and> mapFn fresh_index = Some emit_x
   \<and> indexes (snd (registerWithDatabase 1 sample_heap registered_db)) (source emit_x) = Some 1
   \<and> fst (registerWithDatabase 1 sample_heap registered_db) 1 =
       Some \<lparr>mapFn = Some emit_x, mapFnString = source emit_x,
             indexById = \<lparr>root = None, cid = Arr [Arr [Str ''b'', Arr [Num (Fin 2), Str ''b'']]]\<rparr>,
             indexByKey = \<lparr>root = None, cid = Arr [Arr [Arr [Num (Fin 2), Str ''b''], Str ''b'']]\<rparr>,
             dbHead = Some [2], updateIndexPromise = None\<rparr>
   \<and> fst (registerWithDatabase 1 sample_heap registered_db) 0 = Some stored_index"
  using registerWithDatabase_merge [of sample_heap 1 fresh_index registered_db 0 stored_index]
  by (simp add: sample_heap_def registered_db_def sample_db_def fresh_index_def stored_index_def
      Let_def)

subsection \<open>Single-flight updates\<close>

text \<open>
  Claim C9. A call of \<^verbatim>\<open>updateIndex\<close> that finds no update pending starts one pass
  and stores its promise; a second call before that pass settles returns the same
  promise and changes nothing, so exactly one pass has been started, and the two callers,
  who hold the same promise, get the one outcome of that pass and see the one index it
  leaves, \<open>dbHead\<close> included. In general a call that finds a pending update returns
  its promise and changes nothing.
\<close>

theorem updateIndex_single_flight:
  "(updateIndexPromise (w_index w) = None \<longrightarrow>
      (let p1 = fst (updateIndex w); w1 = snd (updateIndex w);
           p2 = fst (updateIndex w1); w2 = snd (updateIndex w1)
       in p2 = p1 \<and> w2 = w1 \<and> started w2 = Suc (started w)
          \<and> updateIndexPromise (w_index w1) = Some p1
          \<and> settle eng ops w2 = settle eng ops w1
          \<and> updateIndexPromise (w_index (snd (settle eng ops w1))) = None))
   \<and> (updateIndexPromise (w_index w) = Some p \<longrightarrow> updateIndex w = (p, w))"
  by (auto simp: updateIndex_def settle_def Let_def split: prod.splits)

theorem updateIndex_single_flight_witness:
  "updateIndexPromise (w_index sample_world) = None
   \<and> fst (updateIndex sample_world) = 0
   \<and> fst (updateIndex (snd (updateIndex sample_world))) = 0
   \<and> started (snd (updateIndex (snd (updateIndex sample_world)))) = 1
   \<and> fst (settle log_engine list_tree_ops (snd (updateIndex (snd (updateIndex sample_world))))) = Inr ()
   \<and> dbHead (w_index (snd (settle log_engine list_tree_ops
                              (snd (updateIndex (snd (updateIndex sample_world))))))) = Some [5]"
  using updateIndex_single_flight [of sample_world log_engine list_tree_ops 0]
  by (simp add: store_defs engine_defs tree_defs index_defs sample_defs Let_def)

subsection \<open>Idempotence of the update\<close>

lemma loadIndex_idem [simp]:
  "loadIndex ops blks (loadIndex ops blks x opts) opts = loadIndex ops blks x opts"
  by (simp add: loadIndex_def split: option.splits)

lemma loadIndex_cid [simp]: "cid (loadIndex ops blks x opts) = cid x"
  by (simp add: loadIndex_def split: option.splits)

lemma update_transaction_load_roots:
  "update_transaction ops blks (load_roots ops blks ix) result = update_transaction ops blks ix result"
  by (cases ix)
    (simp add: update_transaction_def load_roots_def Let_def
      cong: sum.case_cong option.case_cong prod.case_cong)

lemma bulkIndex_total:
  assumes "\<forall>blks opts es. es \<noteq> [] \<longrightarrow> t_create ops blks opts es \<noteq> []"
  shows "bulkIndex ops blks x es opts \<noteq> Inl e"
  using assms by (auto simp: bulkIndex_def split: option.splits list.splits)

lemma update_transaction_failure:
  assumes "\<forall>blks opts es. es \<noteq> [] \<longrightarrow> t_create ops blks opts es \<noteq> []"
    and "update_transaction ops blks ix result = (Inl e, ixt)"
  shows "ixt = load_roots ops blks ix"
  using assms(2) bulkIndex_total [OF assms(1)]
  by (cases ix) (auto simp: update_transaction_def load_roots_def Let_def split: sum.splits option.splits prod.splits)

lemma update_transaction_success:
  assumes "update_transaction ops blks ix result = (Inr b, ixt)"
  shows "dbHead ixt = Some (rclock result)"
  using assms
  by (cases ix) (auto simp: update_transaction_def Let_def split: sum.splits option.splits prod.splits)

lemma update_transaction_promise:
  "update_transaction ops blks (ix\<lparr>updateIndexPromise := q\<rparr>) result =
     (case update_transaction ops blks ix result of (x, ixt) \<Rightarrow> (x, ixt\<lparr>updateIndexPromise := q\<rparr>))"
  by (cases ix) (simp add: update_transaction_def old_entries_def Let_def split: sum.splits option.splits prod.splits)


lemma innerUpdateIndex_promise:
  "innerUpdateIndex eng ops db (ix\<lparr>updateIndexPromise := q\<rparr>) blks =
     (case innerUpdateIndex eng ops db ix blks of
        (r, b, ix', db') \<Rightarrow> (r, b, ix'\<lparr>updateIndexPromise := q\<rparr>, db'))"
proof -
  have swap: "(ix\<lparr>updateIndexPromise := q\<rparr>)\<lparr>dbHead := h\<rparr> = (ix\<lparr>dbHead := h\<rparr>)\<lparr>updateIndexPromise := q\<rparr>"
    for h
    by (cases ix) simp
  show ?thesis
    unfolding innerUpdateIndex_def Let_def update_transaction_promise
    by (simp add: swap split: prod.splits sum.splits)
qed

lemma changesSince_same_clock:
  "e_eventsSince eng (blocks s) (clock s) (clock s) = [] \<Longrightarrow>
     rows (changesSince eng s (Some (clock s))) = []"
  by (simp add: changesSince_def)

lemma rclock_changesSince [simp]: "rclock (changesSince eng s ev) = clock s"
  by (simp add: changesSince_def Let_def split: option.splits)

lemma innerUpdateIndex_no_changes:
  "rows (changesSince eng (dstore db) (dbHead ix)) = [] \<Longrightarrow>
     innerUpdateIndex eng ops db ix blks = (Inr (), blks, ix\<lparr>dbHead := Some (clock (dstore db))\<rparr>, db)"
  by (simp add: innerUpdateIndex_def Let_def)

lemma innerUpdateIndex_dstore:
  "innerUpdateIndex eng ops db ix blks = (r, blks', ix', db') \<Longrightarrow> dstore db' = dstore db"
  by (auto simp: innerUpdateIndex_def Let_def split: if_splits prod.splits sum.splits)

lemma dbHead_load_roots [simp]: "dbHead (load_roots ops blks ix) = dbHead ix"
  by (simp add: load_roots_def)

lemma innerUpdateIndex_idem:
  assumes H1: "e_eventsSince eng (blocks (dstore db)) (clock (dstore db)) (clock (dstore db)) = []"
    and H2: "\<forall>blks opts es. es \<noteq> [] \<longrightarrow> t_create ops blks opts es \<noteq> []"
    and run: "innerUpdateIndex eng ops db ix blks = (r, blks', ix', db')"
    and same: "dstore db2 = dstore db"
  shows "\<exists>r2 d2. innerUpdateIndex eng ops db2 ix' blks' = (r2, blks', ix', d2)"
proof -
  define cs where "cs = changesSince eng (dstore db) (dbHead ix)"
  have quiet: "innerUpdateIndex eng ops db2 j blks' = (Inr (), blks', j, db2)"
    if "dbHead j = Some (clock (dstore db))" for j
  proof -
    have "rows (changesSince eng (dstore db2) (dbHead j)) = []"
      unfolding that same using H1 by (rule changesSince_same_clock)
    then have "innerUpdateIndex eng ops db2 j blks' =
        (Inr (), blks', j\<lparr>dbHead := Some (clock (dstore db2))\<rparr>, db2)"
      by (rule innerUpdateIndex_no_changes)
    moreover have "j\<lparr>dbHead := Some (clock (dstore db2))\<rparr> = j"
      using that same by (cases j) simp
    ultimately show ?thesis by (simp only:)
  qed
  show ?thesis
  proof (cases "rows cs = []")
    case True
    then have "innerUpdateIndex eng ops db ix blks =
        (Inr (), blks, ix\<lparr>dbHead := Some (clock (dstore db))\<rparr>, db)"
      unfolding cs_def by (rule innerUpdateIndex_no_changes)
    with run have "ix' = ix\<lparr>dbHead := Some (clock (dstore db))\<rparr>"
      by (metis Pair_inject)
    then have "dbHead ix' = Some (clock (dstore db))"
      by (cases ix) simp
    then show ?thesis
      using quiet by blast
  next
    case False
    obtain x ixt where ut: "update_transaction ops blks ix cs = (x, ixt)"
      by (cases "update_transaction ops blks ix cs")
    have inner: "innerUpdateIndex eng ops db ix blks =
        (case x of Inl err \<Rightarrow> (Inl err, blks, ixt, db)
                 | Inr b \<Rightarrow> (Inr (), b, ixt, db\<lparr>external := external db @ [''dbIndex'']\<rparr>))"
      using False ut unfolding cs_def
      by (simp add: innerUpdateIndex_def Let_def split: sum.splits)
    show ?thesis
    proof (cases x)
      case (Inr b)
      with inner run have "(r, blks', ix', db') = (Inr (), b, ixt, db\<lparr>external := external db @ [''dbIndex'']\<rparr>)"
        by (simp only: sum.case)
      then have "ix' = ixt"
        by (metis Pair_inject)
      moreover have "dbHead ixt = Some (rclock cs)"
        using ut unfolding Inr by (rule update_transaction_success)
      ultimately have "dbHead ix' = Some (clock (dstore db))"
        by (simp add: cs_def)
      then show ?thesis
        using quiet by blast
    next
      case (Inl e)
      with inner run have "(r, blks', ix', db') = (Inl e, blks, ixt, db)"
        by (simp only: sum.case)
      then have res: "ix' = ixt" "blks' = blks"
        by (metis Pair_inject)+
      have ixt: "ixt = load_roots ops blks ix"
        using H2 ut unfolding Inl by (rule update_transaction_failure)
      have "dbHead ix' = dbHead ix"
        unfolding res ixt by simp
      then have cs2: "changesSince eng (dstore db2) (dbHead ix') = cs"
        unfolding cs_def same by (simp only:)
      have "update_transaction ops blks ix' cs = (Inl e, ix')"
        unfolding res ixt update_transaction_load_roots
        using ut unfolding Inl ixt by (simp only:)
      then have "innerUpdateIndex eng ops db2 ix' blks' = (Inl e, blks', ix', db2)"
        using False unfolding innerUpdateIndex_def Let_def cs2 res(2)
        by simp
      then show ?thesis by blast
    qed
  qed
qed

lemma updateIndex_await_unfold:
  "updateIndex_await eng ops w =
     (case innerUpdateIndex eng ops (w_db w) (w_index w) (indexBlocks (w_db w)) of
        (r, b, ix', db') \<Rightarrow>
          (r, w\<lparr>w_db := db'\<lparr>indexBlocks := b\<rparr>,
                w_index := ix'\<lparr>updateIndexPromise := None\<rparr>,
                started := (if updateIndexPromise (w_index w) = None then Suc (started w)
                            else started w)\<rparr>))"
  by (cases w)
    (auto simp: updateIndex_await_def updateIndex_def settle_def innerUpdateIndex_promise
      split: option.splits prod.splits)

text \<open>
  Claim C4. Let the engine report no event between a clock and itself, and let the tree
  library's \<^verbatim>\<open>create\<close> yield a node for a list that is not empty. Then two awaited
  calls of \<^verbatim>\<open>updateIndex\<close> in a row, with the document store as it was, leave the
  index after the second call as it was after the first: both roots with their content
  identifiers and \<open>dbHead\<close>. And when \<^verbatim>\<open>changesSince\<close> reports no rows, the call
  succeeds, sets \<open>dbHead\<close> to the current clock of the store and changes nothing else
  of the index or of the index blocks.
\<close>

theorem updateIndex_idempotent:
  "(e_eventsSince eng (blocks (dstore (w_db w))) (clock (dstore (w_db w))) (clock (dstore (w_db w))) = []
    \<and> (\<forall>blks opts es. es \<noteq> [] \<longrightarrow> t_create ops blks opts es \<noteq> []) \<longrightarrow>
      (let w1 = snd (updateIndex_await eng ops w);
           w2 = snd (updateIndex_await eng ops w1)
       in dstore (w_db w1) = dstore (w_db w) \<and> w_index w2 = w_index w1))
   \<and> (rows (changesSince eng (dstore (w_db w)) (dbHead (w_index w))) = [] \<longrightarrow>
        fst (updateIndex_await eng ops w) = Inr ()
        \<and> w_index (snd (updateIndex_await eng ops w)) =
            (w_index w)\<lparr>dbHead := Some (clock (dstore (w_db w))), updateIndexPromise := None\<rparr>
        \<and> indexBlocks (w_db (snd (updateIndex_await eng ops w))) = indexBlocks (w_db w))"
proof (intro conjI impI)
  assume H: "e_eventsSince eng (blocks (dstore (w_db w))) (clock (dstore (w_db w))) (clock (dstore (w_db w))) = []
    \<and> (\<forall>blks opts es. es \<noteq> [] \<longrightarrow> t_create ops blks opts es \<noteq> [])"
  obtain r b ix' db' where run:
    "innerUpdateIndex eng ops (w_db w) (w_index w) (indexBlocks (w_db w)) = (r, b, ix', db')"
    by (cases "innerUpdateIndex eng ops (w_db w) (w_index w) (indexBlocks (w_db w))") auto
  define w1 where "w1 = snd (updateIndex_await eng ops w)"
  have w1: "w_db w1 = db'\<lparr>indexBlocks := b\<rparr>" "w_index w1 = ix'\<lparr>updateIndexPromise := None\<rparr>"
    by (simp_all add: w1_def updateIndex_await_unfold run)
  have ds: "dstore (w_db w1) = dstore (w_db w)"
    using innerUpdateIndex_dstore [OF run] w1 by simp
  from innerUpdateIndex_idem [OF _ _ run, of "w_db w1"] H ds
  obtain r2 d2 where "innerUpdateIndex eng ops (w_db w1) ix' b = (r2, b, ix', d2)"
    by blast
  then have "innerUpdateIndex eng ops (w_db w1) (w_index w1) (indexBlocks (w_db w1))
      = (r2, b, ix'\<lparr>updateIndexPromise := None\<rparr>, d2)"
    by (simp add: w1 innerUpdateIndex_promise)
  then have "w_index (snd (updateIndex_await eng ops w1)) = w_index w1"
    by (simp add: updateIndex_await_unfold w1)
  with ds show "let w1 = snd (updateIndex_await eng ops w);
           w2 = snd (updateIndex_await eng ops w1)
       in dstore (w_db w1) = dstore (w_db w) \<and> w_index w2 = w_index w1"
    by (simp add: Let_def w1_def)
next
  assume "rows (changesSince eng (dstore (w_db w)) (dbHead (w_index w))) = []"
  then show "fst (updateIndex_await eng ops w) = Inr ()"
    by (simp add: updateIndex_await_unfold innerUpdateIndex_no_changes)
next
  assume "rows (changesSince eng (dstore (w_db w)) (dbHead (w_index w))) = []"
  then show "w_index (snd (updateIndex_await eng ops w)) =
            (w_index w)\<lparr>dbHead := Some (clock (dstore (w_db w))), updateIndexPromise := None\<rparr>"
    by (simp add: updateIndex_await_unfold innerUpdateIndex_no_changes)
next
  assume "rows (changesSince eng (dstore (w_db w)) (dbHead (w_index w))) = []"
  then show "indexBlocks (w_db (snd (updateIndex_await eng ops w))) = indexBlocks (w_db w)"
    by (simp add: updateIndex_await_unfold innerUpdateIndex_no_changes)
qed

theorem updateIndex_idempotent_witness:
  "e_eventsSince log_engine (blocks (dstore (w_db sample_world))) (clock (dstore (w_db sample_world)))
      (clock (dstore (w_db sample_world))) = []
   \<and> fst (updateIndex_await log_engine list_tree_ops sample_world) = Inr ()
   \<and> dbHead (w_index (snd (updateIndex_await log_engine list_tree_ops sample_world))) = Some [5]
   \<and> cid (indexByKey (w_index (snd (updateIndex_await log_engine list_tree_ops sample_world)))) =
       Arr [Arr [Arr [Num (Fin 2), Str ''b''], Str ''b''],
            Arr [Arr [Num (Fin 4), Str ''c''], Str ''c'']]
   \<and> fst (updateIndex_await log_engine list_tree_ops
             (snd (updateIndex_await log_engine list_tree_ops sample_world))) = Inr ()
   \<and> w_index (snd (updateIndex_await log_engine list_tree_ops
                      (snd (updateIndex_await log_engine list_tree_ops sample_world))))
       = w_index (snd (updateIndex_await log_engine list_tree_ops sample_world))"
proof -
  have h1: "e_eventsSince log_engine (blocks (dstore (w_db sample_world)))
      (clock (dstore (w_db sample_world))) (clock (dstore (w_db sample_world))) = []"
    by (simp add: engine_defs sample_defs)
  have h2: "\<forall>blks opts es. es \<noteq> [] \<longrightarrow> t_create list_tree_ops blks opts es \<noteq> []"
    by (simp add: list_tree_ops_def)
  from updateIndex_idempotent [of log_engine sample_world list_tree_ops] h1 h2
  have same: "w_index (snd (updateIndex_await log_engine list_tree_ops
                      (snd (updateIndex_await log_engine list_tree_ops sample_world))))
       = w_index (snd (updateIndex_await log_engine list_tree_ops sample_world))"
    by (simp add: Let_def)
  have first: "fst (updateIndex_await log_engine list_tree_ops sample_world) = Inr ()"
    by (simp add: store_defs engine_defs tree_defs index_defs sample_defs Let_def)
  have head: "dbHead (w_index (snd (updateIndex_await log_engine list_tree_ops sample_world))) = Some [5]"
    by (simp add: store_defs engine_defs tree_defs index_defs sample_defs Let_def)
  have root: "cid (indexByKey (w_index (snd (updateIndex_await log_engine list_tree_ops sample_world)))) =
       Arr [Arr [Arr [Num (Fin 2), Str ''b''], Str ''b''],
            Arr [Arr [Num (Fin 4), Str ''c''], Str ''c'']]"
    by (simp add: store_defs engine_defs tree_defs index_defs sample_defs Let_def)
  have second: "fst (updateIndex_await log_engine list_tree_ops
             (snd (updateIndex_await log_engine list_tree_ops sample_world))) = Inr ()"
    by (simp add: store_defs engine_defs tree_defs index_defs sample_defs Let_def)
  from h1 first head root second same show ?thesis
    by (simp only: simp_thms)
qed

subsection \<open>An update without a live map function\<close>

lemma update_without_mapFn:
  assumes "mapFn ix = None"
    and "rows (changesSince eng (dstore db) (dbHead ix)) \<noteq> []"
    and "old_entries ops blks (load_roots ops blks ix) (rows (changesSince eng (dstore db) (dbHead ix)))
           = Inr x"
  shows "innerUpdateIndex eng ops db ix blks =
           (Inl (Error (missing_mapFn_message (mapFnString ix))), blks, load_roots ops blks ix, db)"
  using assms
  by (cases ix) (simp add: innerUpdateIndex_def update_transaction_def load_roots_def Let_def
      split: prod.splits)

lemma first_build_without_mapFn:
  assumes "mapFn ix = None" and "dbHead ix = None"
    and "rows (changesSince eng (dstore db) None) \<noteq> []"
  shows "innerUpdateIndex eng ops db ix blks =
           (Inl (Error (missing_mapFn_message (mapFnString ix))), blks, load_roots ops blks ix, db)"
proof -
  have "old_entries ops blks (load_roots ops blks ix) (rows (changesSince eng (dstore db) (dbHead ix)))
          = Inr ([], [])"
    using assms(2) by (simp add: old_entries_def)
  with assms show ?thesis
    by (simp add: update_without_mapFn)
qed

text \<open>
  Claim C5 fails on the code at the index \<open>empty_stored_index\<close>: no live map function,
  a stored source text, a \<open>dbHead\<close> and no id-index. One row is pending. The update
  reads \<^verbatim>\<open>this.indexById.root.getMany\<close> with \<^verbatim>\<open>root\<close> null before it looks for the
  map function, so it fails with a TypeError and not with the error that names the
  missing map function and echoes the source text; \<^verbatim>\<open>query\<close> with \<^verbatim>\<open>update\<close>
  passes the TypeError on. The same index without a \<open>dbHead\<close>, and the index
  \<open>stored_index\<close>, whose id-index is stored, fail as the claim says.
\<close>

theorem update_without_mapFn_null_root:
  "mapFn empty_stored_index = None
   \<and> mapFnString empty_stored_index = ''function (doc, emit) { emit(doc.x, doc._id) }''
   \<and> rows (changesSince log_engine sample_store (dbHead empty_stored_index)) =
       [\<lparr>key = ''c'', val = Obj [(''x'', Num (Fin 4))], del = False\<rparr>]
   \<and> fst (updateIndex_await log_engine list_tree_ops (sample_world\<lparr>w_index := empty_stored_index\<rparr>))
       = Inl (TypeError ''cannot read properties of null (reading getMany)'')
   \<and> fst (query log_engine list_tree_ops (sample_world\<lparr>w_index := empty_stored_index\<rparr>)
            \<lparr>qrange = None, qkey = Undefined, qlimit = None\<rparr> True)
       = Inl (TypeError ''cannot read properties of null (reading getMany)'')
   \<and> fst (updateIndex_await log_engine list_tree_ops
            (sample_world\<lparr>w_index := empty_stored_index\<lparr>dbHead := None\<rparr>\<rparr>))
       = Inl (Error (missing_mapFn_message ''function (doc, emit) { emit(doc.x, doc._id) }''))
   \<and> fst (updateIndex_await log_engine list_tree_ops (sample_world\<lparr>w_index := stored_index\<rparr>))
       = Inl (Error (missing_mapFn_message ''function (doc, emit) { emit(doc.x, doc._id) }''))"
  by (simp add: store_defs engine_defs tree_defs index_defs sample_defs Let_def)

subsection \<open>The result limit\<close>

lemma slice0_take: "0 \<le> n \<Longrightarrow> slice0 xs (Some n) = take (nat n) xs"
  by (simp add: slice0_def)

lemma range_scan_query_limit:
  assumes "qrange q \<noteq> None \<or> \<not> truthy (qkey q)" and "0 \<le> n"
  shows "fst (doIndexQuery ops blks ix (q\<lparr>qlimit := Some n\<rparr>)) =
           map_sum (\<lambda>e. e) (take (nat n)) (fst (doIndexQuery ops blks ix (q\<lparr>qlimit := None\<rparr>)))"
  using assms
  by (auto simp: doIndexQuery_def applyLimit_def slice0_def Let_def
      split: option.splits sum.splits)

lemma key_query_limit:
  assumes "qrange q = None" and "truthy (qkey q)"
  shows "doIndexQuery ops blks ix (q\<lparr>qlimit := l\<rparr>) = doIndexQuery ops blks ix q"
  using assms
  by (auto simp: doIndexQuery_def Let_def split: option.splits)

text \<open>
  Claim C8 fails on the code for key queries. On the store \<open>twin_store\<close>, where the
  documents \<open>a\<close> and \<open>b\<close> both emit the key 1, the query \<^verbatim>\<open>{ key: 1, limit: 1 }\<close>
  returns two rows, the rows of the same query without the limit: \<^verbatim>\<open>doIndexQuery\<close>
  passes the results of a range and of a scan through \<^verbatim>\<open>applyLimit\<close> and returns the
  result of a key lookup as it is. The scan with the limit 1 returns one row.
\<close>

theorem key_query_ignores_limit:
  "fst (query log_engine list_tree_ops twin_world
          \<lparr>qrange = None, qkey = Num (Fin 1), qlimit = Some 1\<rparr> True) =
     Inr [\<lparr>oid = Str ''a'', okey = Num (Fin 1), ovalue = Str ''a''\<rparr>,
          \<lparr>oid = Str ''b'', okey = Num (Fin 1), ovalue = Str ''b''\<rparr>]
   \<and> fst (query log_engine list_tree_ops twin_world
          \<lparr>qrange = None, qkey = Num (Fin 1), qlimit = None\<rparr> True) =
     Inr [\<lparr>oid = Str ''a'', okey = Num (Fin 1), ovalue = Str ''a''\<rparr>,
          \<lparr>oid = Str ''b'', okey = Num (Fin 1), ovalue = Str ''b''\<rparr>]
   \<and> fst (query log_engine list_tree_ops twin_world
          \<lparr>qrange = None, qkey = Undefined, qlimit = Some 1\<rparr> True) =
     Inr [\<lparr>oid = Str ''a'', okey = Num (Fin 1), ovalue = Str ''a''\<rparr>]"
  by (simp add: store_defs engine_defs tree_defs index_defs sample_defs Let_def)

end
